theory Spec2Isabelle
  imports Complex_Main "HOL-Library.Sublist"
begin

section \<open>JSON values as the handlers see them\<close>

text \<open>
  The server of \<^verbatim>\<open>src/unnamed/part_000\<close> is an Express application. Its handlers
  read the request body that \<^verbatim>\<open>express.json()\<close> (line 38) parsed: a JavaScript
  object whose property values are JSON values (a JSON array is such an object, keyed by
  its indices). A property that is
  absent reads as \<^verbatim>\<open>undefined\<close>, which is \<open>None\<close> here. \<open>JDate\<close> is the value of
  \<^verbatim>\<open>new Date()\<close>, milliseconds since the epoch; the handlers only store it.
  Of a number the handlers use its type tag and whether it is zero, nothing else.
\<close>

datatype jsval =
    JNull
  | JBool bool
  | JNum real
  | JStr string
  | JDate nat
  | JArr "jsval list"
  | JObj "(string \<times> jsval) list"

type_synonym jsobj = "string \<rightharpoonup> jsval"

text \<open>\<^verbatim>\<open>!v\<close>: the values JavaScript counts as false.\<close>

fun falsy :: "jsval option \<Rightarrow> bool" where
  "falsy None = True"
| "falsy (Some JNull) = True"
| "falsy (Some (JBool b)) = (b = False)"
| "falsy (Some (JNum x)) = (x = 0)"
| "falsy (Some (JStr s)) = (s = [])"
| "falsy (Some (JDate t)) = False"
| "falsy (Some (JArr xs)) = False"
| "falsy (Some (JObj kvs)) = False"

text \<open>\<^verbatim>\<open>typeof v\<close>.\<close>

fun js_typeof :: "jsval option \<Rightarrow> string" where
  "js_typeof None = ''undefined''"
| "js_typeof (Some JNull) = ''object''"
| "js_typeof (Some (JBool b)) = ''boolean''"
| "js_typeof (Some (JNum x)) = ''number''"
| "js_typeof (Some (JStr s)) = ''string''"
| "js_typeof (Some (JDate t)) = ''object''"
| "js_typeof (Some (JArr xs)) = ''object''"
| "js_typeof (Some (JObj kvs)) = ''object''"

text \<open>
  \<^verbatim>\<open>s || ''\<close> on a string that may be undefined: the empty string is falsy, so
  both absent and empty give the empty string.
\<close>

definition or_empty :: "string option \<Rightarrow> string" where
  "or_empty v = (case v of None \<Rightarrow> [] | Some s \<Rightarrow> (if s = [] then [] else s))"

text \<open>
  \<^verbatim>\<open>{ id, ...obj }\<close>: an object literal that writes \<open>id\<close> first and then every
  own property of \<open>obj\<close>; a later property replaces an earlier one of the same name.
\<close>

definition spread_id :: "string \<Rightarrow> jsobj \<Rightarrow> jsobj" where
  "spread_id i obj = [''id'' \<mapsto> JStr i] ++ obj"

subsection \<open>Numbers in template literals\<close>

text \<open>
  \<^verbatim>\<open>`${Date.now()}_...`\<close> writes the clock reading in decimal. \<open>digit_char\<close> is
  only applied to a number below ten.
\<close>

definition digit_char :: "nat \<Rightarrow> char" where
  "digit_char d = ''0123456789'' ! d"

fun string_of_nat :: "nat \<Rightarrow> string" where
  "string_of_nat n =
     (if n < 10 then [digit_char n]
      else string_of_nat (n div 10) @ [digit_char (n mod 10)])"

declare string_of_nat.simps [simp del]

section \<open>Requests, responses and the process state\<close>

text \<open>
  \<^verbatim>\<open>req.body\<close> is \<open>raw_body\<close>: the parsed object, or \<open>None\<close> where the
  request reaches the handler with \<^verbatim>\<open>req.body\<close> undefined (what the body parser leaves
  for a request without a JSON body depends on the Express version, which the repository
  does not fix). \<open>body\<close> is \<^verbatim>\<open>req.body || {}\<close>, as the add handler reads it (lines
  118 and 143): an object is truthy, so it is the object itself, and the empty object
  where \<^verbatim>\<open>req.body\<close> is undefined.
\<close>

record request =
  headers :: "string \<rightharpoonup> string"
  raw_body :: "jsobj option"
  params_id :: string

definition body :: "request \<Rightarrow> jsobj" where
  "body req = (case raw_body req of None \<Rightarrow> Map.empty | Some obj \<Rightarrow> obj)"

datatype res_body =
    Json jsobj
  | JsonArray "jsobj list"

record response =
  status :: nat
  payload :: res_body

text \<open>\<^verbatim>\<open>process.env\<close>, as far as the request handlers read it.\<close>

record environment =
  ADMIN_SECRET :: "string option"

text \<open>
  The module-level variables of lines 9 to 29. The client handle \<^verbatim>\<open>db\<close> is opaque:
  what the handlers ask of it is recorded as a list of calls.
\<close>

record server =
  isDbAvailable :: bool
  inMemoryProducts :: "jsobj list"
  inMemoryOrders :: "jsobj list"

subsection \<open>The document store, from outside\<close>

text \<open>
  The store is the Firestore client of the \<^verbatim>\<open>firebase-admin\<close> package, not code
  of this repository. A call either throws (with the error's message) or returns.
\<close>

datatype 'a outcome = Threw string | Returned 'a

record doc =
  doc_id :: string
  doc_data :: jsobj

datatype db_call =
    CollectionAdd string jsobj
  | CollectionOrderByGet string string string
  | CollectionGet string
  | BatchDeleteCommit "string list"
  | DocDelete string string

text \<open>
  What the outside world answers while one request is handled: the clock, the random
  token \<^verbatim>\<open>Math.random().toString(36).slice(2, 8)\<close>, and the store's answer to the
  call the handler makes. \<open>request_time\<close> is the clock when the request reaches the
  server and \<open>elapsed\<close> the time that passes until the handler evaluates
  \<^verbatim>\<open>new Date()\<close>: the clock is taken not to run backwards while a request is handled.
  \<open>Date_now\<close> is the later reading \<^verbatim>\<open>Date.now()\<close> that goes into a synthesised
  identifier.
\<close>

record world =
  request_time :: nat
  elapsed :: nat
  Date_now :: nat
  random_token :: string
  add_result :: "string outcome"
  query_result :: "doc list outcome"
  commit_result :: "unit outcome"
  delete_result :: "unit outcome"

definition new_Date :: "world \<Rightarrow> nat" where
  "new_Date w = request_time w + elapsed w"

type_synonym result = "response \<times> server \<times> db_call list"

definition resp_of :: "result \<Rightarrow> response" where
  "resp_of r = fst r"

definition state_of :: "result \<Rightarrow> server" where
  "state_of r = fst (snd r)"

definition calls_of :: "result \<Rightarrow> db_call list" where
  "calls_of r = snd (snd r)"

definition json_message :: "string \<Rightarrow> res_body" where
  "json_message m = Json [''message'' \<mapsto> JStr m]"

definition synth_id :: "world \<Rightarrow> string" where
  "synth_id w = string_of_nat (Date_now w) @ ''_'' @ random_token w"

section \<open>Startup\<close>

text \<open>
  Lines 9 to 29: the flag starts false and is set true as the last step of a \<^verbatim>\<open>try\<close>
  block that loads the credentials and initialises the client; if anything in the block
  throws, the flag stays false. Both collections start empty.
\<close>

definition startup :: "unit outcome \<Rightarrow> server" where
  "startup init =
     \<lparr>isDbAvailable = (case init of Threw e \<Rightarrow> False | Returned u \<Rightarrow> True),
      inMemoryProducts = [],
      inMemoryOrders = []\<rparr>"

section \<open>The admin guard\<close>

text \<open>
  \<^verbatim>\<open>requireAdmin\<close> (lines 43 to 54) either answers itself (\<open>Some\<close>) or calls
  \<^verbatim>\<open>next()\<close> (\<open>None\<close>).
\<close>

definition requireAdmin :: "environment \<Rightarrow> request \<Rightarrow> response option" where
  "requireAdmin env req =
     (let provided = or_empty (headers req ''x-admin-secret'');
          expected = or_empty (ADMIN_SECRET env)
      in if expected = [] then
           Some \<lparr>status = 503, payload = json_message ''Admin not configured''\<rparr>
         else if provided \<noteq> expected then
           Some \<lparr>status = 401, payload = json_message ''Unauthorized''\<rparr>
         else None)"

text \<open>A route registered as \<^verbatim>\<open>app.post(path, requireAdmin, handler)\<close>.\<close>

definition admin_route ::
  "environment \<Rightarrow> (request \<Rightarrow> server \<Rightarrow> result) \<Rightarrow> request \<Rightarrow> server \<Rightarrow> result" where
  "admin_route env handler req s =
     (case requireAdmin env req of
        Some r \<Rightarrow> (r, s, [])
      | None \<Rightarrow> handler req s)"

section \<open>Order intake\<close>

text \<open>
  Lines 62 to 91. The body of the \<^verbatim>\<open>try\<close> block gives \<open>Inl\<close> where it throws:
  on a store error, and at line 68 where \<^verbatim>\<open>req.body\<close> is undefined, since setting a
  property of \<^verbatim>\<open>undefined\<close> is a TypeError. The handler reads \<^verbatim>\<open>req.body\<close> as it
  is, without the add handler's \<^verbatim>\<open>|| {}\<close>.
\<close>

definition create_order_try ::
  "world \<Rightarrow> request \<Rightarrow> server \<Rightarrow> (string + response) \<times> server \<times> db_call list" where
  "create_order_try w req s =
     (case raw_body req of
        None \<Rightarrow> (Inl ''TypeError'', s, [])
      | Some orderData0 \<Rightarrow>
          (let orderData = orderData0(''createdAt'' \<mapsto> JDate (new_Date w),
                                      ''status'' \<mapsto> JStr ''Processing'')
           in if isDbAvailable s then
                (case add_result w of
                   Threw e \<Rightarrow> (Inl e, s, [CollectionAdd ''orders'' orderData])
                 | Returned ref_id \<Rightarrow>
                     (Inr \<lparr>status = 200,
                           payload =
                             Json [''message'' \<mapsto> JStr ''Order received and saved successfully!'',
                                   ''orderId'' \<mapsto> JStr ref_id]\<rparr>,
                      s, [CollectionAdd ''orders'' orderData]))
              else
                (let i = synth_id w
                 in (Inr \<lparr>status = 200,
                          payload = Json [''message'' \<mapsto> JStr ''Order received (in-memory).'',
                                          ''orderId'' \<mapsto> JStr i]\<rparr>,
                     s\<lparr>inMemoryOrders := inMemoryOrders s @ [spread_id i orderData]\<rparr>,
                     []))))"

definition create_order :: "world \<Rightarrow> request \<Rightarrow> server \<Rightarrow> result" where
  "create_order w req s =
     (case create_order_try w req s of
        (Inl e, s', calls) \<Rightarrow>
          (\<lparr>status = 500, payload = json_message ''Failed to save order.''\<rparr>, s', calls)
      | (Inr r, s', calls) \<Rightarrow> (r, s', calls))"

section \<open>The product catalogue\<close>

subsection \<open>List\<close>

text \<open>
  Lines 95 to 113. \<^verbatim>\<open>{ id: doc.id, ...doc.data() }\<close> is \<open>spread_id\<close> of the
  document's identifier over its data. The outer \<^verbatim>\<open>catch\<close> is kept although the
  inner one already absorbs every throw of the store.
\<close>

definition list_products_try ::
  "world \<Rightarrow> request \<Rightarrow> server \<Rightarrow> (string + response) \<times> server \<times> db_call list" where
  "list_products_try w req s =
     (if isDbAvailable s then
        (case query_result w of
           Returned docs \<Rightarrow>
             (Inr \<lparr>status = 200,
                   payload = JsonArray (map (\<lambda>d. spread_id (doc_id d) (doc_data d)) docs)\<rparr>,
              s, [CollectionOrderByGet ''products'' ''createdAt'' ''desc''])
         | Threw innerErr \<Rightarrow>
             (Inr \<lparr>status = 200, payload = JsonArray (inMemoryProducts s)\<rparr>,
              s, [CollectionOrderByGet ''products'' ''createdAt'' ''desc'']))
      else
        (Inr \<lparr>status = 200, payload = JsonArray (inMemoryProducts s)\<rparr>, s, []))"

definition list_products :: "world \<Rightarrow> request \<Rightarrow> server \<Rightarrow> result" where
  "list_products w req s =
     (case list_products_try w req s of
        (Inl e, s', calls) \<Rightarrow>
          (\<lparr>status = 200, payload = JsonArray (inMemoryProducts s')\<rparr>, s', calls)
      | (Inr r, s', calls) \<Rightarrow> (r, s', calls))"

subsection \<open>Add\<close>

text \<open>
  Lines 116 to 147. \<^verbatim>\<open>req.body || {}\<close> is \<open>body\<close>.
  \<^verbatim>\<open>unshift\<close> puts the new record in front. The \<^verbatim>\<open>catch\<close> of line 140 builds
  its record as \<^verbatim>\<open>{ id, ...body, createdAt }\<close>; it is kept, although the inner
  \<^verbatim>\<open>catch\<close> absorbs every throw of the store and nothing else in the block throws.
\<close>

definition add_product_try ::
  "world \<Rightarrow> request \<Rightarrow> server \<Rightarrow> (string + response) \<times> server \<times> db_call list" where
  "add_product_try w req s =
     (let product = body req
      in if falsy (product ''name'') \<or> js_typeof (product ''price'') \<noteq> ''number'' then
           (Inr \<lparr>status = 400,
                 payload = json_message ''name and numeric price are required''\<rparr>, s, [])
         else
           (let product = product(''createdAt'' \<mapsto> JDate (new_Date w))
            in if isDbAvailable s then
                 (case add_result w of
                    Returned ref_id \<Rightarrow>
                      (Inr \<lparr>status = 201, payload = Json (spread_id ref_id product)\<rparr>,
                       s, [CollectionAdd ''products'' product])
                  | Threw innerErr \<Rightarrow>
                      (let toStore = spread_id (synth_id w) product
                       in (Inr \<lparr>status = 201, payload = Json toStore\<rparr>,
                           s\<lparr>inMemoryProducts := toStore # inMemoryProducts s\<rparr>,
                           [CollectionAdd ''products'' product])))
               else
                 (let toStore = spread_id (synth_id w) product
                  in (Inr \<lparr>status = 201, payload = Json toStore\<rparr>,
                      s\<lparr>inMemoryProducts := toStore # inMemoryProducts s\<rparr>,
                      []))))"

definition add_product :: "world \<Rightarrow> request \<Rightarrow> server \<Rightarrow> result" where
  "add_product w req s =
     (case add_product_try w req s of
        (Inl e, s', calls) \<Rightarrow>
          (let toStore = (spread_id (synth_id w) (body req))(''createdAt'' \<mapsto> JDate (new_Date w))
           in (\<lparr>status = 201, payload = Json toStore\<rparr>,
               s'\<lparr>inMemoryProducts := toStore # inMemoryProducts s'\<rparr>, calls))
      | (Inr r, s', calls) \<Rightarrow> (r, s', calls))"

subsection \<open>Delete\<close>

text \<open>
  \<^verbatim>\<open>xs.splice(start, count)\<close> removes \<open>count\<close> elements from index \<open>start\<close> on;
  \<^verbatim>\<open>xs.findIndex(p)\<close> is the index of the first element that satisfies \<open>p\<close>, and
  \<open>-1\<close> when there is none.
\<close>

definition splice_js :: "nat \<Rightarrow> nat \<Rightarrow> 'a list \<Rightarrow> 'a list" where
  "splice_js start count xs = take start xs @ drop (start + count) xs"

fun findIndex_from :: "('a \<Rightarrow> bool) \<Rightarrow> nat \<Rightarrow> 'a list \<Rightarrow> int" where
  "findIndex_from p k [] = - 1"
| "findIndex_from p k (x # xs) = (if p x then int k else findIndex_from p (Suc k) xs)"

definition findIndex :: "('a \<Rightarrow> bool) \<Rightarrow> 'a list \<Rightarrow> int" where
  "findIndex p xs = findIndex_from p 0 xs"

text \<open>
  Delete all, lines 150 to 166: one \<^verbatim>\<open>get()\<close>, then every document's deletion in
  one batch and its \<^verbatim>\<open>commit()\<close>.
\<close>

definition delete_all_try ::
  "world \<Rightarrow> request \<Rightarrow> server \<Rightarrow> (string + response) \<times> server \<times> db_call list" where
  "delete_all_try w req s =
     (if isDbAvailable s then
        (case query_result w of
           Threw e \<Rightarrow> (Inl e, s, [CollectionGet ''products''])
         | Returned docs \<Rightarrow>
             (case commit_result w of
                Threw e \<Rightarrow>
                  (Inl e, s, [CollectionGet ''products'', BatchDeleteCommit (map doc_id docs)])
              | Returned u \<Rightarrow>
                  (Inr \<lparr>status = 200, payload = json_message ''All products deleted''\<rparr>,
                   s, [CollectionGet ''products'', BatchDeleteCommit (map doc_id docs)])))
      else
        (Inr \<lparr>status = 200, payload = json_message ''All products deleted (in-memory)''\<rparr>,
         s\<lparr>inMemoryProducts :=
              splice_js 0 (length (inMemoryProducts s)) (inMemoryProducts s)\<rparr>,
         []))"

definition delete_all :: "world \<Rightarrow> request \<Rightarrow> server \<Rightarrow> result" where
  "delete_all w req s =
     (case delete_all_try w req s of
        (Inl e, s', calls) \<Rightarrow>
          (\<lparr>status = 500, payload = json_message ''Failed to delete products.''\<rparr>, s', calls)
      | (Inr r, s', calls) \<Rightarrow> (r, s', calls))"

text \<open>
  Delete one, lines 169 to 184. \<^verbatim>\<open>p.id === id\<close> holds when the entry's \<open>id\<close> is
  the string of the path.
\<close>

definition delete_one_try ::
  "world \<Rightarrow> request \<Rightarrow> server \<Rightarrow> (string + response) \<times> server \<times> db_call list" where
  "delete_one_try w req s =
     (let i = params_id req
      in if isDbAvailable s then
           (case delete_result w of
              Threw e \<Rightarrow> (Inl e, s, [DocDelete ''products'' i])
            | Returned u \<Rightarrow>
                (Inr \<lparr>status = 200, payload = json_message ''Product deleted''\<rparr>,
                 s, [DocDelete ''products'' i]))
         else
           (let idx = findIndex (\<lambda>p. p ''id'' = Some (JStr i)) (inMemoryProducts s)
            in (Inr \<lparr>status = 200, payload = json_message ''Product deleted (in-memory)''\<rparr>,
                (if idx \<noteq> - 1
                 then s\<lparr>inMemoryProducts := splice_js (nat idx) 1 (inMemoryProducts s)\<rparr>
                 else s),
                [])))"

definition delete_one :: "world \<Rightarrow> request \<Rightarrow> server \<Rightarrow> result" where
  "delete_one w req s =
     (case delete_one_try w req s of
        (Inl e, s', calls) \<Rightarrow>
          (\<lparr>status = 500, payload = json_message ''Failed to delete product.''\<rparr>, s', calls)
      | (Inr r, s', calls) \<Rightarrow> (r, s', calls))"

section \<open>Health check, unmatched paths and the router\<close>

text \<open>
  Lines 186 to 194. The health check sends the clock reading (as its ISO text, kept here
  as the reading).
\<close>

definition healthz :: "world \<Rightarrow> request \<Rightarrow> server \<Rightarrow> result" where
  "healthz w req s =
     (\<lparr>status = 200,
       payload = Json [''status'' \<mapsto> JStr ''ok'', ''time'' \<mapsto> JDate (new_Date w)]\<rparr>, s, [])"

definition not_found :: "world \<Rightarrow> request \<Rightarrow> server \<Rightarrow> result" where
  "not_found w req s = (\<lparr>status = 404, payload = json_message ''Not found''\<rparr>, s, [])"

text \<open>
  The JSON routes in the order the file registers them. The static file routes (lines 39,
  40 and 57) read neither the flag, the collections nor the store and are left out.
\<close>

datatype route =
    PostCreateOrder
  | GetProducts
  | PostAdminProducts
  | DeleteAdminProducts
  | DeleteAdminProduct
  | GetHealthz
  | Unmatched

fun handle :: "environment \<Rightarrow> world \<Rightarrow> route \<Rightarrow> request \<Rightarrow> server \<Rightarrow> result" where
  "handle env w PostCreateOrder req s = create_order w req s"
| "handle env w GetProducts req s = list_products w req s"
| "handle env w PostAdminProducts req s = admin_route env (add_product w) req s"
| "handle env w DeleteAdminProducts req s = admin_route env (delete_all w) req s"
| "handle env w DeleteAdminProduct req s = admin_route env (delete_one w) req s"
| "handle env w GetHealthz req s = healthz w req s"
| "handle env w Unmatched req s = not_found w req s"

text \<open>Requests handled one after the other, each with the world's answers for it.\<close>

fun run :: "environment \<Rightarrow> (world \<times> route \<times> request) list \<Rightarrow> server \<Rightarrow> server" where
  "run env [] s = s"
| "run env ((w, rt, req) # evs) s = run env evs (state_of (handle env w rt req s))"

section \<open>Reading a run\<close>

text \<open>A property of the JSON object a response carries.\<close>

definition json_field :: "response \<Rightarrow> string \<Rightarrow> jsval option" where
  "json_field r k = (case payload r of Json obj \<Rightarrow> obj k | JsonArray xs \<Rightarrow> None)"

text \<open>
  Status 201 is the add endpoint's success answer, and its payload is the record it made.
  \<open>insertion_log\<close> collects these records over a run, the newest first.
\<close>

definition added_record :: "response \<Rightarrow> jsobj list" where
  "added_record r =
     (if status r = 201 then (case payload r of Json obj \<Rightarrow> [obj] | JsonArray xs \<Rightarrow> [])
      else [])"

fun insertion_log :: "environment \<Rightarrow> (world \<times> route \<times> request) list \<Rightarrow> server \<Rightarrow> jsobj list" where
  "insertion_log env [] s = []"
| "insertion_log env ((w, rt, req) # evs) s =
     insertion_log env evs (state_of (handle env w rt req s))
       @ added_record (resp_of (handle env w rt req s))"

text \<open>
  A request falls back to the in-memory path when its answer and what it does to the two
  collections are what the same request gets with the storage mode unavailable, and the
  flag is as before.
\<close>

definition falls_back :: "environment \<Rightarrow> world \<Rightarrow> route \<Rightarrow> request \<Rightarrow> server \<Rightarrow> bool" where
  "falls_back env w rt req s \<longleftrightarrow>
     resp_of (handle env w rt req s) =
       resp_of (handle env w rt req (s\<lparr>isDbAvailable := False\<rparr>))
     \<and> inMemoryProducts (state_of (handle env w rt req s)) =
         inMemoryProducts (state_of (handle env w rt req (s\<lparr>isDbAvailable := False\<rparr>)))
     \<and> inMemoryOrders (state_of (handle env w rt req s)) =
         inMemoryOrders (state_of (handle env w rt req (s\<lparr>isDbAvailable := False\<rparr>)))
     \<and> isDbAvailable (state_of (handle env w rt req s)) = isDbAvailable s"

text \<open>
  The identifier the add endpoint generates for a product: the store's document identifier
  when the store took the product, the synthesised one otherwise.
\<close>

definition generated_id :: "world \<Rightarrow> server \<Rightarrow> string" where
  "generated_id w s =
     (if isDbAvailable s then (case add_result w of Returned ref_id \<Rightarrow> ref_id | Threw e \<Rightarrow> synth_id w)
      else synth_id w)"

text \<open>
  The creation time of a record, and a collection that runs from the newest record to the
  oldest, every record carrying a creation time. \<open>clock_of\<close> is the reading
  \<^verbatim>\<open>new Date()\<close> gives while a request of a run is handled.
\<close>

definition created_ms :: "jsobj \<Rightarrow> nat option" where
  "created_ms p = (case p ''createdAt'' of Some (JDate t) \<Rightarrow> Some t | _ \<Rightarrow> None)"

definition newer_or_same :: "jsobj \<Rightarrow> jsobj \<Rightarrow> bool" where
  "newer_or_same a b =
     (case (created_ms a, created_ms b) of (Some ta, Some tb) \<Rightarrow> tb \<le> ta | _ \<Rightarrow> False)"

definition newest_first :: "jsobj list \<Rightarrow> bool" where
  "newest_first xs \<longleftrightarrow> sorted_wrt newer_or_same xs \<and> list_all (\<lambda>p. created_ms p \<noteq> None) xs"

definition clock_of :: "world \<times> route \<times> request \<Rightarrow> nat" where
  "clock_of ev = new_Date (fst ev)"

section \<open>Sample inputs\<close>

text \<open>
  Concrete requests and answers of the outside world, used where a theorem is applied to
  an input: a store that throws on every call, a store that answers, an admin secret, a
  product submission and an order that tries to set its own status and creation time.
\<close>

definition ex_env :: environment where
  "ex_env = \<lparr>ADMIN_SECRET = Some ''s3cret''\<rparr>"

definition ex_store_down :: world where
  "ex_store_down =
     \<lparr>request_time = 990, elapsed = 10, Date_now = 1001, random_token = ''k3x9ab'',
      add_result = Threw ''unavailable'', query_result = Threw ''unavailable'',
      commit_result = Threw ''unavailable'', delete_result = Threw ''unavailable''\<rparr>"

definition ex_docs :: "doc list" where
  "ex_docs =
     [\<lparr>doc_id = ''d2'', doc_data = [''name'' \<mapsto> JStr ''Motor'', ''createdAt'' \<mapsto> JDate 900]\<rparr>,
      \<lparr>doc_id = ''d1'', doc_data = [''name'' \<mapsto> JStr ''Tyre'', ''createdAt'' \<mapsto> JDate 800]\<rparr>]"

definition ex_store_up :: world where
  "ex_store_up =
     \<lparr>request_time = 990, elapsed = 10, Date_now = 1001, random_token = ''k3x9ab'',
      add_result = Returned ''doc7'', query_result = Returned ex_docs,
      commit_result = Returned (), delete_result = Returned ()\<rparr>"

definition ex_admin_headers :: "string \<rightharpoonup> string" where
  "ex_admin_headers = [''x-admin-secret'' \<mapsto> ''s3cret'']"

definition ex_product_request :: request where
  "ex_product_request =
     \<lparr>headers = ex_admin_headers,
      raw_body = Some [''name'' \<mapsto> JStr ''Wheel Set'', ''price'' \<mapsto> JNum (4999 / 100)],
      params_id = []\<rparr>"

definition ex_order_request :: request where
  "ex_order_request =
     \<lparr>headers = Map.empty,
      raw_body = Some [''item'' \<mapsto> JStr ''Wheel Set'', ''status'' \<mapsto> JStr ''Shipped'',
                       ''createdAt'' \<mapsto> JStr ''1999-12-31''],
      params_id = []\<rparr>"

text \<open>An in-memory catalogue of two products, the newer one first.\<close>

definition ex_two_products :: server where
  "ex_two_products =
     \<lparr>isDbAvailable = False,
      inMemoryProducts =
        [[''id'' \<mapsto> JStr ''1001_bbbbbb'', ''name'' \<mapsto> JStr ''Motor''],
         [''id'' \<mapsto> JStr ''1000_aaaaaa'', ''name'' \<mapsto> JStr ''Tyre'']],
      inMemoryOrders = []\<rparr>"

text \<open>A second product, submitted later.\<close>

definition ex_motor_request :: request where
  "ex_motor_request =
     \<lparr>headers = ex_admin_headers,
      raw_body = Some [''name'' \<mapsto> JStr ''Motor'', ''price'' \<mapsto> JNum 120],
      params_id = []\<rparr>"

definition ex_store_down_later :: world where
  "ex_store_down_later =
     \<lparr>request_time = 1990, elapsed = 10, Date_now = 2001, random_token = ''q7w2zz'',
      add_result = Threw ''unavailable'', query_result = Threw ''unavailable'',
      commit_result = Threw ''unavailable'', delete_result = Threw ''unavailable''\<rparr>"


lemmas ex_defs = ex_env_def ex_store_down_def ex_store_up_def ex_docs_def ex_admin_headers_def
  ex_product_request_def ex_order_request_def

lemma body_make [simp]:
  "body \<lparr>headers = h, raw_body = v, params_id = i\<rparr> =
     (case v of None \<Rightarrow> Map.empty | Some obj \<Rightarrow> obj)"
  by (simp add: body_def)

lemma body_update [simp]:
  "body (req\<lparr>raw_body := v\<rparr>) = (case v of None \<Rightarrow> Map.empty | Some obj \<Rightarrow> obj)"
  by (simp add: body_def)

lemma body_defined: "raw_body req = Some obj \<Longrightarrow> body req = obj"
  by (simp add: body_def)

lemma new_Date_make [simp]:
  "new_Date \<lparr>request_time = a, elapsed = b, Date_now = c, random_token = d, add_result = e,
     query_result = f, commit_result = g, delete_result = h\<rparr> = a + b"
  by (simp add: new_Date_def)

section \<open>The handlers, branch by branch\<close>

text \<open>
  What each handler returns on each of its paths. The theorems below rest on these.
\<close>

lemma create_order_undefined:
  "raw_body req = None \<Longrightarrow>
   create_order w req s =
     (\<lparr>status = 500, payload = json_message ''Failed to save order.''\<rparr>, s, [])"
  by (simp add: create_order_def create_order_try_def)

lemma create_order_mem:
  "raw_body req = Some obj \<Longrightarrow> \<not> isDbAvailable s \<Longrightarrow>
   create_order w req s =
     (\<lparr>status = 200,
       payload = Json [''message'' \<mapsto> JStr ''Order received (in-memory).'',
                       ''orderId'' \<mapsto> JStr (synth_id w)]\<rparr>,
      s\<lparr>inMemoryOrders := inMemoryOrders s @
           [spread_id (synth_id w)
              (obj(''createdAt'' \<mapsto> JDate (new_Date w), ''status'' \<mapsto> JStr ''Processing''))]\<rparr>,
      [])"
  by (simp add: create_order_def create_order_try_def Let_def)

lemma create_order_db_threw:
  "raw_body req = Some obj \<Longrightarrow> isDbAvailable s \<Longrightarrow> add_result w = Threw e \<Longrightarrow>
   create_order w req s =
     (\<lparr>status = 500, payload = json_message ''Failed to save order.''\<rparr>, s,
      [CollectionAdd ''orders''
         (obj(''createdAt'' \<mapsto> JDate (new_Date w), ''status'' \<mapsto> JStr ''Processing''))])"
  by (simp add: create_order_def create_order_try_def Let_def)

lemma create_order_db_returned:
  "raw_body req = Some obj \<Longrightarrow> isDbAvailable s \<Longrightarrow> add_result w = Returned ref_id \<Longrightarrow>
   create_order w req s =
     (\<lparr>status = 200,
       payload = Json [''message'' \<mapsto> JStr ''Order received and saved successfully!'',
                       ''orderId'' \<mapsto> JStr ref_id]\<rparr>, s,
      [CollectionAdd ''orders''
         (obj(''createdAt'' \<mapsto> JDate (new_Date w), ''status'' \<mapsto> JStr ''Processing''))])"
  by (simp add: create_order_def create_order_try_def Let_def)

lemma create_order_store_error:
  "isDbAvailable s \<Longrightarrow> add_result w = Threw e \<Longrightarrow>
   resp_of (create_order w req s) =
     \<lparr>status = 500, payload = json_message ''Failed to save order.''\<rparr>
   \<and> state_of (create_order w req s) = s"
  by (cases "raw_body req")
    (simp_all add: create_order_undefined create_order_db_threw resp_of_def state_of_def)

lemma create_order_mem_no_calls:
  "\<not> isDbAvailable s \<Longrightarrow> calls_of (create_order w req s) = []"
  by (cases "raw_body req")
    (simp_all add: create_order_undefined create_order_mem calls_of_def)

lemma list_products_mem:
  "\<not> isDbAvailable s \<Longrightarrow>
   list_products w req s =
     (\<lparr>status = 200, payload = JsonArray (inMemoryProducts s)\<rparr>, s, [])"
  by (simp add: list_products_def list_products_try_def)

lemma list_products_db_threw:
  "isDbAvailable s \<Longrightarrow> query_result w = Threw e \<Longrightarrow>
   list_products w req s =
     (\<lparr>status = 200, payload = JsonArray (inMemoryProducts s)\<rparr>, s,
      [CollectionOrderByGet ''products'' ''createdAt'' ''desc''])"
  by (simp add: list_products_def list_products_try_def)

lemma list_products_db_returned:
  "isDbAvailable s \<Longrightarrow> query_result w = Returned docs \<Longrightarrow>
   list_products w req s =
     (\<lparr>status = 200,
       payload = JsonArray (map (\<lambda>d. spread_id (doc_id d) (doc_data d)) docs)\<rparr>, s,
      [CollectionOrderByGet ''products'' ''createdAt'' ''desc''])"
  by (simp add: list_products_def list_products_try_def)

lemma add_product_invalid:
  "falsy (body req ''name'') \<or> js_typeof (body req ''price'') \<noteq> ''number'' \<Longrightarrow>
   add_product w req s =
     (\<lparr>status = 400, payload = json_message ''name and numeric price are required''\<rparr>, s, [])"
  by (simp add: add_product_def add_product_try_def Let_def)

lemma add_product_mem:
  "\<not> falsy (body req ''name'') \<Longrightarrow> js_typeof (body req ''price'') = ''number'' \<Longrightarrow>
   \<not> isDbAvailable s \<Longrightarrow>
   add_product w req s =
     (\<lparr>status = 201,
       payload = Json (spread_id (synth_id w) ((body req)(''createdAt'' \<mapsto> JDate (new_Date w))))\<rparr>,
      s\<lparr>inMemoryProducts :=
          spread_id (synth_id w) ((body req)(''createdAt'' \<mapsto> JDate (new_Date w)))
            # inMemoryProducts s\<rparr>,
      [])"
  by (simp add: add_product_def add_product_try_def Let_def)

lemma add_product_db_threw:
  "\<not> falsy (body req ''name'') \<Longrightarrow> js_typeof (body req ''price'') = ''number'' \<Longrightarrow>
   isDbAvailable s \<Longrightarrow> add_result w = Threw e \<Longrightarrow>
   add_product w req s =
     (\<lparr>status = 201,
       payload = Json (spread_id (synth_id w) ((body req)(''createdAt'' \<mapsto> JDate (new_Date w))))\<rparr>,
      s\<lparr>inMemoryProducts :=
          spread_id (synth_id w) ((body req)(''createdAt'' \<mapsto> JDate (new_Date w)))
            # inMemoryProducts s\<rparr>,
      [CollectionAdd ''products'' ((body req)(''createdAt'' \<mapsto> JDate (new_Date w)))])"
  by (simp add: add_product_def add_product_try_def Let_def)

lemma add_product_db_returned:
  "\<not> falsy (body req ''name'') \<Longrightarrow> js_typeof (body req ''price'') = ''number'' \<Longrightarrow>
   isDbAvailable s \<Longrightarrow> add_result w = Returned ref_id \<Longrightarrow>
   add_product w req s =
     (\<lparr>status = 201,
       payload = Json (spread_id ref_id ((body req)(''createdAt'' \<mapsto> JDate (new_Date w))))\<rparr>,
      s,
      [CollectionAdd ''products'' ((body req)(''createdAt'' \<mapsto> JDate (new_Date w)))])"
  by (simp add: add_product_def add_product_try_def Let_def)

lemma delete_all_mem:
  "\<not> isDbAvailable s \<Longrightarrow>
   delete_all w req s =
     (\<lparr>status = 200, payload = json_message ''All products deleted (in-memory)''\<rparr>,
      s\<lparr>inMemoryProducts := []\<rparr>, [])"
  by (simp add: delete_all_def delete_all_try_def splice_js_def)

lemma delete_all_db:
  "isDbAvailable s \<Longrightarrow>
   state_of (delete_all w req s) = s \<and>
   status (resp_of (delete_all w req s)) =
     (case query_result w of
        Threw e \<Rightarrow> 500
      | Returned docs \<Rightarrow> (case commit_result w of Threw e \<Rightarrow> 500 | Returned u \<Rightarrow> 200))"
  by (simp add: delete_all_def delete_all_try_def state_of_def resp_of_def
      split: outcome.splits)

lemma delete_one_db:
  "isDbAvailable s \<Longrightarrow>
   state_of (delete_one w req s) = s \<and>
   calls_of (delete_one w req s) = [DocDelete ''products'' (params_id req)] \<and>
   status (resp_of (delete_one w req s)) =
     (case delete_result w of Threw e \<Rightarrow> 500 | Returned u \<Rightarrow> 200)"
  by (simp add: delete_one_def delete_one_try_def state_of_def resp_of_def calls_of_def Let_def
      split: outcome.splits)

lemma delete_one_mem:
  "\<not> isDbAvailable s \<Longrightarrow>
   delete_one w req s =
     (\<lparr>status = 200, payload = json_message ''Product deleted (in-memory)''\<rparr>,
      (if findIndex (\<lambda>p. p ''id'' = Some (JStr (params_id req))) (inMemoryProducts s) \<noteq> - 1
       then s\<lparr>inMemoryProducts :=
          splice_js (nat (findIndex (\<lambda>p. p ''id'' = Some (JStr (params_id req))) (inMemoryProducts s)))
            1 (inMemoryProducts s)\<rparr>
       else s),
      [])"
  by (simp add: delete_one_def delete_one_try_def Let_def)

subsection \<open>Finding and removing an entry\<close>

lemma findIndex_from_none:
  "(\<forall>x\<in>set xs. \<not> p x) \<Longrightarrow> findIndex_from p k xs = - 1"
  by (induction xs arbitrary: k) auto

lemma findIndex_from_first:
  "(\<forall>x\<in>set pre. \<not> p x) \<Longrightarrow> p e \<Longrightarrow>
   findIndex_from p k (pre @ e # post) = int (k + length pre)"
  by (induction pre arbitrary: k) auto

lemma findIndex_none: "(\<forall>x\<in>set xs. \<not> p x) \<Longrightarrow> findIndex p xs = - 1"
  by (simp add: findIndex_def findIndex_from_none)

lemma findIndex_first:
  "(\<forall>x\<in>set pre. \<not> p x) \<Longrightarrow> p e \<Longrightarrow> findIndex p (pre @ e # post) = int (length pre)"
  by (simp add: findIndex_def findIndex_from_first)

lemma delete_one_mem_absent:
  assumes "\<not> isDbAvailable s"
    and "\<forall>p\<in>set (inMemoryProducts s). p ''id'' \<noteq> Some (JStr (params_id req))"
  shows "delete_one w req s =
     (\<lparr>status = 200, payload = json_message ''Product deleted (in-memory)''\<rparr>, s, [])"
  using assms by (simp add: delete_one_mem findIndex_none)

lemma delete_one_mem_present:
  assumes "\<not> isDbAvailable s"
    and "inMemoryProducts s = pre @ e # post"
    and "e ''id'' = Some (JStr (params_id req))"
    and "\<forall>p\<in>set pre. p ''id'' \<noteq> Some (JStr (params_id req))"
  shows "delete_one w req s =
     (\<lparr>status = 200, payload = json_message ''Product deleted (in-memory)''\<rparr>,
      s\<lparr>inMemoryProducts := pre @ post\<rparr>, [])"
proof -
  let ?p = "\<lambda>p::jsobj. p ''id'' = Some (JStr (params_id req))"
  have idx: "findIndex ?p (pre @ e # post) = int (length pre)"
    using assms(3,4) by (simp add: findIndex_first)
  have cut: "splice_js (length pre) (Suc 0) (pre @ e # post) = pre @ post"
    by (simp add: splice_js_def)
  show ?thesis
    using assms(1,2) by (simp add: delete_one_mem idx cut)
qed

lemma delete_one_mem_subseq:
  assumes "\<not> isDbAvailable s"
  shows "subseq (inMemoryProducts (state_of (delete_one w req s))) (inMemoryProducts s)"
proof (cases "\<exists>p\<in>set (inMemoryProducts s). p ''id'' = Some (JStr (params_id req))")
  case True
  then obtain pre e post where sp: "inMemoryProducts s = pre @ e # post"
    "e ''id'' = Some (JStr (params_id req))"
    "\<forall>p\<in>set pre. p ''id'' \<noteq> Some (JStr (params_id req))"
    using split_list_first_prop [of "inMemoryProducts s" "\<lambda>p. p ''id'' = Some (JStr (params_id req))"]
    by blast
  have "subseq (pre @ post) (pre @ e # post)"
    by (auto simp: subseq_append')
  then show ?thesis
    using delete_one_mem_present [OF assms sp] sp(1) by (simp add: state_of_def)
next
  case False
  then show ?thesis
    using delete_one_mem_absent [OF assms, of req w] by (simp add: state_of_def)
qed

lemma spread_id_other: "k \<noteq> ''id'' \<Longrightarrow> spread_id i obj k = obj k"
  by (simp add: spread_id_def map_add_def split: option.splits)

lemma spread_id_id:
  "spread_id i obj ''id'' = (case obj ''id'' of None \<Rightarrow> Some (JStr i) | Some v \<Rightarrow> Some v)"
  by (simp add: spread_id_def map_add_def split: option.splits)

lemma dom_spread_id: "dom (spread_id i obj) = insert ''id'' (dom obj)"
  by (auto simp: spread_id_def)

lemma synth_id_ex: "synth_id ex_store_down = ''1001_k3x9ab''"
  by (simp add: synth_id_def ex_store_down_def string_of_nat.simps digit_char_def)

subsection \<open>The flag and the store calls\<close>

lemma create_order_flag: "isDbAvailable (state_of (create_order w req s)) = isDbAvailable s"
  by (simp add: create_order_def create_order_try_def state_of_def Let_def
      split: outcome.splits option.splits)

lemma list_products_state: "state_of (list_products w req s) = s"
  by (simp add: list_products_def list_products_try_def state_of_def split: outcome.splits)

lemma add_product_flag: "isDbAvailable (state_of (add_product w req s)) = isDbAvailable s"
  by (simp add: add_product_def add_product_try_def state_of_def Let_def split: outcome.splits)

lemma delete_all_flag: "isDbAvailable (state_of (delete_all w req s)) = isDbAvailable s"
  by (simp add: delete_all_def delete_all_try_def state_of_def split: outcome.splits)

lemma delete_one_flag: "isDbAvailable (state_of (delete_one w req s)) = isDbAvailable s"
  by (simp add: delete_one_def delete_one_try_def state_of_def Let_def split: outcome.splits)

lemma admin_route_flag:
  assumes "\<And>req s. isDbAvailable (state_of (handler req s)) = isDbAvailable s"
  shows "isDbAvailable (state_of (admin_route env handler req s)) = isDbAvailable s"
proof (cases "requireAdmin env req")
  case None
  then show ?thesis by (simp add: admin_route_def assms)
next
  case (Some r)
  then show ?thesis by (simp add: admin_route_def state_of_def)
qed

lemma handle_flag: "isDbAvailable (state_of (handle env w rt req s)) = isDbAvailable s"
proof (cases rt)
  case PostCreateOrder
  then show ?thesis by (simp add: create_order_flag)
next
  case GetProducts
  then show ?thesis by (simp add: list_products_state)
next
  case PostAdminProducts
  then show ?thesis by (simp add: admin_route_flag add_product_flag)
next
  case DeleteAdminProducts
  then show ?thesis by (simp add: admin_route_flag delete_all_flag)
next
  case DeleteAdminProduct
  then show ?thesis by (simp add: admin_route_flag delete_one_flag)
next
  case GetHealthz
  then show ?thesis by (simp add: healthz_def state_of_def)
next
  case Unmatched
  then show ?thesis by (simp add: not_found_def state_of_def)
qed

lemma run_flag: "isDbAvailable (run env evs s) = isDbAvailable s"
proof (induction evs arbitrary: s)
  case Nil
  then show ?case by simp
next
  case (Cons ev evs)
  obtain w rt req where ev: "ev = (w, rt, req)"
    by (cases ev) auto
  show ?case
    by (simp add: ev Cons.IH handle_flag)
qed

lemma admin_route_no_calls:
  assumes "\<And>req. calls_of (handler req s) = []"
  shows "calls_of (admin_route env handler req s) = []"
proof (cases "requireAdmin env req")
  case None
  then show ?thesis by (simp add: admin_route_def assms)
next
  case (Some r)
  then show ?thesis by (simp add: admin_route_def calls_of_def)
qed

lemma add_product_mem_no_calls: "\<not> isDbAvailable s \<Longrightarrow> calls_of (add_product w req s) = []"
  by (simp add: add_product_def add_product_try_def calls_of_def Let_def)

lemma delete_all_mem_no_calls: "\<not> isDbAvailable s \<Longrightarrow> calls_of (delete_all w req s) = []"
  by (simp add: delete_all_mem calls_of_def)

lemma delete_one_mem_no_calls: "\<not> isDbAvailable s \<Longrightarrow> calls_of (delete_one w req s) = []"
  by (simp add: delete_one_mem calls_of_def)

lemma handle_mem_no_calls:
  assumes "\<not> isDbAvailable s"
  shows "calls_of (handle env w rt req s) = []"
proof (cases rt)
  case PostCreateOrder
  then show ?thesis using assms by (simp add: create_order_mem_no_calls)
next
  case GetProducts
  then show ?thesis using assms by (simp add: list_products_mem calls_of_def)
next
  case PostAdminProducts
  then show ?thesis using assms by (simp add: admin_route_no_calls add_product_mem_no_calls)
next
  case DeleteAdminProducts
  then show ?thesis using assms by (simp add: admin_route_no_calls delete_all_mem_no_calls)
next
  case DeleteAdminProduct
  then show ?thesis using assms by (simp add: admin_route_no_calls delete_one_mem_no_calls)
next
  case GetHealthz
  then show ?thesis by (simp add: healthz_def calls_of_def)
next
  case Unmatched
  then show ?thesis by (simp add: not_found_def calls_of_def)
qed

subsection \<open>The record the add endpoint makes\<close>

lemma add_product_valid:
  assumes "\<not> falsy (body req ''name'')" and "js_typeof (body req ''price'') = ''number''"
  shows "resp_of (add_product w req s) =
           \<lparr>status = 201,
            payload = Json (spread_id (generated_id w s)
                        ((body req)(''createdAt'' \<mapsto> JDate (new_Date w))))\<rparr>"
proof (cases "isDbAvailable s")
  case False
  then show ?thesis
    using assms by (simp add: add_product_mem resp_of_def generated_id_def)
next
  case True
  show ?thesis
  proof (cases "add_result w")
    case (Threw e)
    then show ?thesis
      using assms True by (simp add: add_product_db_threw resp_of_def generated_id_def)
  next
    case (Returned ref_id)
    then show ?thesis
      using assms True by (simp add: add_product_db_returned resp_of_def generated_id_def)
  qed
qed

lemma added_fields:
  "dom (spread_id i (obj(''createdAt'' \<mapsto> v))) = insert ''id'' (insert ''createdAt'' (dom obj))"
  "spread_id i (obj(''createdAt'' \<mapsto> v)) ''createdAt'' = Some v"
  "k \<noteq> ''id'' \<Longrightarrow> k \<noteq> ''createdAt'' \<Longrightarrow> spread_id i (obj(''createdAt'' \<mapsto> v)) k = obj k"
  "spread_id i (obj(''createdAt'' \<mapsto> v)) ''id'' =
     (case obj ''id'' of None \<Rightarrow> Some (JStr i) | Some u \<Rightarrow> Some u)"
  by (simp_all add: dom_spread_id spread_id_other spread_id_id)

subsection \<open>The products collection along a run\<close>

lemma subseq_behind: "subseq xs (x # xs)"
  by (rule list_emb_Cons) simp

lemma create_order_step:
  "inMemoryProducts (state_of (create_order w req s)) = inMemoryProducts s
   \<and> added_record (resp_of (create_order w req s)) = []"
  by (simp add: create_order_def create_order_try_def state_of_def resp_of_def added_record_def
      Let_def split: outcome.splits option.splits)

lemma list_products_step:
  "inMemoryProducts (state_of (list_products w req s)) = inMemoryProducts s
   \<and> added_record (resp_of (list_products w req s)) = []"
  by (simp add: list_products_def list_products_try_def state_of_def resp_of_def added_record_def
      split: outcome.splits)

lemma add_product_step:
  "subseq (inMemoryProducts (state_of (add_product w req s)))
     (added_record (resp_of (add_product w req s)) @ inMemoryProducts s)"
proof (cases "falsy (body req ''name'') \<or> js_typeof (body req ''price'') \<noteq> ''number''")
  case True
  then show ?thesis
    by (simp add: add_product_invalid state_of_def resp_of_def added_record_def)
next
  case False
  then have v: "\<not> falsy (body req ''name'')" "js_typeof (body req ''price'') = ''number''"
    by simp_all
  show ?thesis
  proof (cases "isDbAvailable s")
    case False
    then show ?thesis
      using v by (simp add: add_product_mem state_of_def resp_of_def added_record_def)
  next
    case True
    show ?thesis
    proof (cases "add_result w")
      case (Threw e)
      then show ?thesis
        using v True by (simp add: add_product_db_threw state_of_def resp_of_def added_record_def)
    next
      case (Returned ref_id)
      then show ?thesis
        using v True
        by (simp add: add_product_db_returned state_of_def resp_of_def added_record_def
            subseq_behind)
    qed
  qed
qed

lemma delete_all_step:
  "subseq (inMemoryProducts (state_of (delete_all w req s))) (inMemoryProducts s)
   \<and> added_record (resp_of (delete_all w req s)) = []"
  by (simp add: delete_all_def delete_all_try_def state_of_def resp_of_def added_record_def
      splice_js_def split: outcome.splits)

lemma delete_one_step:
  "subseq (inMemoryProducts (state_of (delete_one w req s))) (inMemoryProducts s)
   \<and> added_record (resp_of (delete_one w req s)) = []"
proof (cases "isDbAvailable s")
  case True
  then show ?thesis
    by (simp add: delete_one_def delete_one_try_def state_of_def resp_of_def added_record_def
        Let_def split: outcome.splits)
next
  case False
  then show ?thesis
    using delete_one_mem_subseq [OF False, of w req]
    by (simp add: delete_one_mem resp_of_def added_record_def)
qed

lemma admin_route_step:
  assumes "subseq (inMemoryProducts (state_of (handler req s)))
     (added_record (resp_of (handler req s)) @ inMemoryProducts s)"
  shows "subseq (inMemoryProducts (state_of (admin_route env handler req s)))
     (added_record (resp_of (admin_route env handler req s)) @ inMemoryProducts s)"
proof (cases "requireAdmin env req")
  case None
  then show ?thesis using assms by (simp add: admin_route_def)
next
  case (Some r)
  then have "status r = 503 \<or> status r = 401"
    by (auto simp: requireAdmin_def Let_def split: if_splits)
  then have "added_record r = []"
    by (auto simp: added_record_def)
  then show ?thesis
    using Some by (simp add: admin_route_def state_of_def resp_of_def)
qed

lemma handle_step:
  "subseq (inMemoryProducts (state_of (handle env w rt req s)))
     (added_record (resp_of (handle env w rt req s)) @ inMemoryProducts s)"
proof (cases rt)
  case PostCreateOrder
  then show ?thesis by (simp add: create_order_step)
next
  case GetProducts
  then show ?thesis by (simp add: list_products_step)
next
  case PostAdminProducts
  then show ?thesis by (simp add: admin_route_step add_product_step)
next
  case DeleteAdminProducts
  then show ?thesis by (simp add: admin_route_step delete_all_step)
next
  case DeleteAdminProduct
  then show ?thesis by (simp add: admin_route_step delete_one_step)
next
  case GetHealthz
  then show ?thesis by (simp add: healthz_def state_of_def resp_of_def added_record_def)
next
  case Unmatched
  then show ?thesis
    by (simp add: not_found_def state_of_def resp_of_def added_record_def)
qed

lemma run_insertion_log:
  "subseq (inMemoryProducts (run env evs s)) (insertion_log env evs s @ inMemoryProducts s)"
proof (induction evs arbitrary: s)
  case Nil
  then show ?case by simp
next
  case (Cons ev evs)
  obtain w rt req where ev: "ev = (w, rt, req)"
    by (cases ev) auto
  let ?r = "handle env w rt req s"
  have "subseq (inMemoryProducts (run env evs (state_of ?r)))
          (insertion_log env evs (state_of ?r) @ inMemoryProducts (state_of ?r))"
    by (rule Cons.IH)
  moreover have "subseq (insertion_log env evs (state_of ?r) @ inMemoryProducts (state_of ?r))
          (insertion_log env evs (state_of ?r) @ added_record (resp_of ?r) @ inMemoryProducts s)"
    using handle_step [of env w rt req s] by (simp add: subseq_append')
  ultimately show ?case
    unfolding ev by (simp add: subseq_order.trans)
qed

lemma requireAdmin_ex:
  "requireAdmin ex_env ex_product_request = None"
  "requireAdmin ex_env ex_motor_request = None"
  by (simp_all add: requireAdmin_def or_empty_def ex_defs ex_motor_request_def)

lemma ex_run_two_adds:
  "run ex_env [(ex_store_down, PostAdminProducts, ex_product_request),
               (ex_store_down_later, PostAdminProducts, ex_motor_request)]
     (startup (Threw ''no credentials'')) =
   \<lparr>isDbAvailable = False,
    inMemoryProducts =
      [spread_id (synth_id ex_store_down_later)
         ((body ex_motor_request)(''createdAt'' \<mapsto> JDate (new_Date ex_store_down_later))),
       spread_id (synth_id ex_store_down)
         ((body ex_product_request)(''createdAt'' \<mapsto> JDate (new_Date ex_store_down)))],
    inMemoryOrders = []\<rparr>"
proof -
  have v: "\<not> falsy (body ex_product_request ''name'')"
    "js_typeof (body ex_product_request ''price'') = ''number''"
    "\<not> falsy (body ex_motor_request ''name'')"
    "js_typeof (body ex_motor_request ''price'') = ''number''"
    by (simp_all add: ex_product_request_def ex_motor_request_def)
  show ?thesis
    using v by (simp add: admin_route_def requireAdmin_ex add_product_mem state_of_def startup_def)
qed

subsection \<open>A store call that throws\<close>

lemma list_falls_back:
  assumes "isDbAvailable s" and "query_result w = Threw e"
  shows "falls_back env w GetProducts req s"
  using assms
  by (simp add: falls_back_def list_products_db_threw list_products_mem resp_of_def state_of_def)

lemma add_product_falls_back:
  assumes "isDbAvailable s" and "add_result w = Threw e"
  shows "resp_of (add_product w req s) = resp_of (add_product w req (s\<lparr>isDbAvailable := False\<rparr>))
     \<and> inMemoryProducts (state_of (add_product w req s)) =
         inMemoryProducts (state_of (add_product w req (s\<lparr>isDbAvailable := False\<rparr>)))
     \<and> inMemoryOrders (state_of (add_product w req s)) =
         inMemoryOrders (state_of (add_product w req (s\<lparr>isDbAvailable := False\<rparr>)))"
proof (cases "falsy (body req ''name'') \<or> js_typeof (body req ''price'') \<noteq> ''number''")
  case True
  then show ?thesis
    by (simp add: add_product_invalid resp_of_def state_of_def)
next
  case False
  then have v: "\<not> falsy (body req ''name'')" "js_typeof (body req ''price'') = ''number''"
    by simp_all
  show ?thesis
    using v assms by (simp add: add_product_db_threw add_product_mem resp_of_def state_of_def)
qed

lemma add_falls_back:
  assumes "isDbAvailable s" and "add_result w = Threw e"
  shows "falls_back env w PostAdminProducts req s"
proof (cases "requireAdmin env req")
  case None
  then show ?thesis
    using add_product_falls_back [OF assms, of req] add_product_flag [of w req s]
    by (simp add: falls_back_def admin_route_def)
next
  case (Some r)
  then show ?thesis
    by (simp add: falls_back_def admin_route_def resp_of_def state_of_def)
qed

lemma delete_all_db_threw:
  assumes "isDbAvailable s"
    and "query_result w = Threw e \<or> commit_result w = Threw e"
  shows "status (resp_of (delete_all w req s)) = 500 \<and> state_of (delete_all w req s) = s"
  using assms
  by (auto simp: delete_all_def delete_all_try_def resp_of_def state_of_def
      split: outcome.splits)

lemma delete_one_db_threw:
  assumes "isDbAvailable s" and "delete_result w = Threw e"
  shows "status (resp_of (delete_one w req s)) = 500 \<and> state_of (delete_one w req s) = s"
  using assms
  by (simp add: delete_one_def delete_one_try_def resp_of_def state_of_def Let_def)

subsection \<open>Creation times along a run\<close>

lemma subseq_in_set: "subseq xs ys \<Longrightarrow> x \<in> set xs \<Longrightarrow> x \<in> set ys"
  by (erule list_emb_set) auto

lemma sorted_wrt_subseq:
  "subseq xs ys \<Longrightarrow> sorted_wrt r ys \<Longrightarrow> sorted_wrt r xs"
proof (induction rule: list_emb.induct)
  case (list_emb_Nil ys)
  then show ?case by simp
next
  case (list_emb_Cons xs ys y)
  then show ?case by simp
next
  case (list_emb_Cons2 x y xs ys)
  then have "\<forall>z\<in>set xs. z \<in> set ys"
    by (auto dest: subseq_in_set)
  with list_emb_Cons2 show ?case by auto
qed

lemma newest_first_subseq:
  assumes "subseq xs ys" and "newest_first ys"
  shows "newest_first xs"
proof -
  have "sorted_wrt newer_or_same xs"
    using assms by (auto simp: newest_first_def intro: sorted_wrt_subseq)
  moreover have "list_all (\<lambda>p. created_ms p \<noteq> None) xs"
    using assms by (auto simp: newest_first_def list_all_iff dest: subseq_in_set)
  ultimately show ?thesis
    by (simp add: newest_first_def)
qed

lemma created_ms_spread:
  "created_ms (spread_id i (obj(''createdAt'' \<mapsto> JDate t))) = Some t"
  by (simp add: created_ms_def spread_id_other)

lemma add_product_added:
  "added_record (resp_of (add_product w req s)) = []
   \<or> (\<exists>item. added_record (resp_of (add_product w req s)) = [item]
         \<and> created_ms item = Some (new_Date w))"
proof (cases "falsy (body req ''name'') \<or> js_typeof (body req ''price'') \<noteq> ''number''")
  case True
  then show ?thesis
    by (simp add: add_product_invalid resp_of_def added_record_def)
next
  case False
  then have "resp_of (add_product w req s) =
      \<lparr>status = 201,
       payload = Json (spread_id (generated_id w s)
                   ((body req)(''createdAt'' \<mapsto> JDate (new_Date w))))\<rparr>"
    by (simp add: add_product_valid)
  then show ?thesis
    by (simp add: added_record_def created_ms_spread)
qed

lemma admin_route_added:
  assumes "added_record (resp_of (handler req s)) = []
   \<or> (\<exists>item. added_record (resp_of (handler req s)) = [item] \<and> created_ms item = Some t)"
  shows "added_record (resp_of (admin_route env handler req s)) = []
   \<or> (\<exists>item. added_record (resp_of (admin_route env handler req s)) = [item]
         \<and> created_ms item = Some t)"
proof (cases "requireAdmin env req")
  case None
  then show ?thesis using assms by (simp add: admin_route_def)
next
  case (Some r)
  then have "status r = 503 \<or> status r = 401"
    by (auto simp: requireAdmin_def Let_def split: if_splits)
  then have "added_record r = []"
    by (auto simp: added_record_def)
  then show ?thesis
    using Some by (simp add: admin_route_def resp_of_def)
qed

lemma handle_added:
  "added_record (resp_of (handle env w rt req s)) = []
   \<or> (\<exists>item. added_record (resp_of (handle env w rt req s)) = [item]
         \<and> created_ms item = Some (new_Date w))"
proof (cases rt)
  case PostCreateOrder
  then show ?thesis by (simp add: create_order_step)
next
  case GetProducts
  then show ?thesis by (simp add: list_products_step)
next
  case PostAdminProducts
  then show ?thesis by (simp add: admin_route_added add_product_added)
next
  case DeleteAdminProducts
  then show ?thesis by (simp add: admin_route_added delete_all_step)
next
  case DeleteAdminProduct
  then show ?thesis by (simp add: admin_route_added delete_one_step)
next
  case GetHealthz
  then show ?thesis by (simp add: healthz_def resp_of_def added_record_def)
next
  case Unmatched
  then show ?thesis by (simp add: not_found_def resp_of_def added_record_def)
qed

lemma newest_first_Cons:
  assumes "newest_first xs" and "created_ms item = Some t"
    and "\<forall>p\<in>set xs. \<forall>u. created_ms p = Some u \<longrightarrow> u \<le> t"
  shows "newest_first (item # xs)"
proof -
  have "\<forall>p\<in>set xs. newer_or_same item p"
  proof
    fix p assume p: "p \<in> set xs"
    then have "created_ms p \<noteq> None"
      using assms(1) by (simp add: newest_first_def list_all_iff)
    then obtain u where u: "created_ms p = Some u" by auto
    then have "u \<le> t" using assms(3) p by blast
    then show "newer_or_same item p"
      by (simp add: newer_or_same_def assms(2) u)
  qed
  then show ?thesis
    using assms(1,2) by (simp add: newest_first_def)
qed

lemma handle_newest_first:
  assumes "newest_first (inMemoryProducts s)"
    and "\<forall>p\<in>set (inMemoryProducts s). \<forall>u. created_ms p = Some u \<longrightarrow> u \<le> new_Date w"
  shows "newest_first (inMemoryProducts (state_of (handle env w rt req s)))
    \<and> (\<forall>p\<in>set (inMemoryProducts (state_of (handle env w rt req s))).
          \<forall>u. created_ms p = Some u \<longrightarrow> u \<le> new_Date w)"
proof -
  let ?r = "handle env w rt req s"
  let ?l = "added_record (resp_of ?r) @ inMemoryProducts s"
  have sub: "subseq (inMemoryProducts (state_of ?r)) ?l"
    by (rule handle_step)
  have l: "newest_first ?l \<and> (\<forall>p\<in>set ?l. \<forall>u. created_ms p = Some u \<longrightarrow> u \<le> new_Date w)"
  proof (cases "added_record (resp_of ?r) = []")
    case True
    then show ?thesis using assms by simp
  next
    case False
    then obtain item where item: "added_record (resp_of ?r) = [item]"
      "created_ms item = Some (new_Date w)"
      using handle_added [of env w rt req s] by blast
    have "newest_first (item # inMemoryProducts s)"
      using assms(1) item(2) assms(2) by (rule newest_first_Cons)
    then show ?thesis
      using item assms(2) by simp
  qed
  have "newest_first (inMemoryProducts (state_of ?r))"
    using sub l by (blast intro: newest_first_subseq)
  moreover have "\<forall>p\<in>set (inMemoryProducts (state_of ?r)).
      \<forall>u. created_ms p = Some u \<longrightarrow> u \<le> new_Date w"
    using sub l by (blast dest: subseq_in_set)
  ultimately show ?thesis by blast
qed

lemma run_newest_first:
  assumes "newest_first (inMemoryProducts s)"
    and "\<forall>p\<in>set (inMemoryProducts s). \<forall>u. created_ms p = Some u \<longrightarrow>
           (\<forall>ev\<in>set evs. u \<le> clock_of ev)"
    and "sorted (map clock_of evs)"
  shows "newest_first (inMemoryProducts (run env evs s))"
  using assms
proof (induction evs arbitrary: s)
  case Nil
  then show ?case by simp
next
  case (Cons ev evs)
  obtain w rt req where ev: "ev = (w, rt, req)"
    by (cases ev) auto
  let ?s = "state_of (handle env w rt req s)"
  have now: "\<forall>p\<in>set (inMemoryProducts s). \<forall>u. created_ms p = Some u \<longrightarrow> u \<le> new_Date w"
    using Cons.prems(2) by (simp add: ev clock_of_def)
  have later: "\<forall>e\<in>set evs. new_Date w \<le> clock_of e"
    using Cons.prems(3) by (simp add: ev clock_of_def)
  have step: "newest_first (inMemoryProducts ?s)
    \<and> (\<forall>p\<in>set (inMemoryProducts ?s). \<forall>u. created_ms p = Some u \<longrightarrow> u \<le> new_Date w)"
    using Cons.prems(1) now by (rule handle_newest_first)
  have bound: "\<forall>p\<in>set (inMemoryProducts ?s). \<forall>u. created_ms p = Some u \<longrightarrow>
           (\<forall>e\<in>set evs. u \<le> clock_of e)"
    using step later by (meson order_trans)
  have "sorted (map clock_of evs)"
    using Cons.prems(3) by simp
  then have "newest_first (inMemoryProducts (run env evs ?s))"
    using step bound by (intro Cons.IH) simp_all
  then show ?case
    by (simp add: ev)
qed

section \<open>The storage mode\<close>

text \<open>
  Claim C1, as the code has it. No handler changes the flag, so along every run it keeps
  the value startup gave it. With the flag false no handler calls the store. With the flag
  true, a store call that throws inside the product list or the product add falls back to
  the in-memory path for that call. Order intake, delete-all and delete-one do not fall
  back: a store call that throws there is answered with status 500 and the state is as
  before.
\<close>

theorem storage_mode_C1:
  "isDbAvailable (state_of (handle env w rt req s)) = isDbAvailable s
   \<and> isDbAvailable (run env evs (startup init)) = isDbAvailable (startup init)
   \<and> (\<not> isDbAvailable s \<longrightarrow> calls_of (handle env w rt req s) = [])
   \<and> (isDbAvailable s \<and> query_result w = Threw e \<longrightarrow> falls_back env w GetProducts req s)
   \<and> (isDbAvailable s \<and> add_result w = Threw e \<longrightarrow> falls_back env w PostAdminProducts req s)
   \<and> (isDbAvailable s \<and> add_result w = Threw e \<longrightarrow>
        status (resp_of (create_order w req s)) = 500 \<and> state_of (create_order w req s) = s)
   \<and> (isDbAvailable s \<and> (query_result w = Threw e \<or> commit_result w = Threw e) \<longrightarrow>
        status (resp_of (delete_all w req s)) = 500 \<and> state_of (delete_all w req s) = s)
   \<and> (isDbAvailable s \<and> delete_result w = Threw e \<longrightarrow>
        status (resp_of (delete_one w req s)) = 500 \<and> state_of (delete_one w req s) = s)"
proof -
  have order: "isDbAvailable s \<and> add_result w = Threw e \<longrightarrow>
        status (resp_of (create_order w req s)) = 500 \<and> state_of (create_order w req s) = s"
    by (simp add: create_order_store_error)
  show ?thesis
    using handle_flag [of env w rt req s] run_flag [of env evs "startup init"]
      handle_mem_no_calls [of s env w rt req]
      list_falls_back [of s w e env req] add_falls_back [of s w e env req]
      order delete_all_db_threw [of s w e req] delete_one_db_threw [of s w e req]
    by blast
qed

theorem storage_mode_C1_witness:
  "\<not> isDbAvailable (startup (Threw ''no credentials''))
   \<and> calls_of (handle ex_env ex_store_up PostCreateOrder ex_order_request
        (startup (Threw ''no credentials''))) = []
   \<and> isDbAvailable (startup (Returned ()))
   \<and> query_result ex_store_down = Threw ''unavailable''
   \<and> add_result ex_store_down = Threw ''unavailable''
   \<and> commit_result ex_store_down = Threw ''unavailable''
   \<and> delete_result ex_store_down = Threw ''unavailable''
   \<and> falls_back ex_env ex_store_down GetProducts ex_order_request (startup (Returned ()))
   \<and> falls_back ex_env ex_store_down PostAdminProducts ex_product_request (startup (Returned ()))
   \<and> isDbAvailable (state_of (handle ex_env ex_store_down PostAdminProducts ex_product_request
        (startup (Returned ()))))
   \<and> isDbAvailable (run ex_env
        [(ex_store_down, PostAdminProducts, ex_product_request),
         (ex_store_down, GetProducts, ex_order_request)] (startup (Returned ())))
   \<and> status (resp_of (create_order ex_store_down ex_order_request (startup (Returned ())))) = 500
   \<and> status (resp_of (delete_all ex_store_down ex_product_request (startup (Returned ())))) = 500
   \<and> status (resp_of (delete_one ex_store_down ex_product_request (startup (Returned ())))) = 500"
proof -
  have a: "\<not> isDbAvailable (startup (Threw ''no credentials''))"
    and b: "isDbAvailable (startup (Returned ()))"
    by (simp_all add: startup_def)
  have c: "query_result ex_store_down = Threw ''unavailable''"
    "add_result ex_store_down = Threw ''unavailable''"
    "commit_result ex_store_down = Threw ''unavailable''"
    "delete_result ex_store_down = Threw ''unavailable''"
    by (simp_all add: ex_store_down_def)
  show ?thesis
    using
      storage_mode_C1 [where env = ex_env and w = ex_store_up and rt = PostCreateOrder
        and req = ex_order_request and s = "startup (Threw ''no credentials'')"
        and evs = "[]" and init = "Returned ()" and e = "''unavailable''"]
      storage_mode_C1 [where env = ex_env and w = ex_store_down and rt = PostAdminProducts
        and req = ex_product_request and s = "startup (Returned ())"
        and evs = "[(ex_store_down, PostAdminProducts, ex_product_request),
         (ex_store_down, GetProducts, ex_order_request)]"
        and init = "Returned ()" and e = "''unavailable''"]
      storage_mode_C1 [where env = ex_env and w = ex_store_down and rt = GetProducts
        and req = ex_order_request and s = "startup (Returned ())"
        and evs = "[]" and init = "Returned ()" and e = "''unavailable''"]
      a b c
    by blast
qed

text \<open>
  Claim C1 as it was stated fails at order intake: with the storage mode available and a
  store write that throws, the order is answered with status 500 and is not appended to
  the in-memory orders collection, where the in-memory path answers 200 and appends it.
\<close>

theorem storage_mode_C1_counterexample:
  "isDbAvailable (startup (Returned ()))
   \<and> add_result ex_store_down = Threw ''unavailable''
   \<and> status (resp_of (handle ex_env ex_store_down PostCreateOrder ex_order_request
        (startup (Returned ())))) = 500
   \<and> inMemoryOrders (state_of (handle ex_env ex_store_down PostCreateOrder ex_order_request
        (startup (Returned ())))) = []
   \<and> status (resp_of (handle ex_env ex_store_down PostCreateOrder ex_order_request
        ((startup (Returned ()))\<lparr>isDbAvailable := False\<rparr>))) = 200
   \<and> \<not> falls_back ex_env ex_store_down PostCreateOrder ex_order_request (startup (Returned ()))"
proof -
  have a: "isDbAvailable (startup (Returned ()))"
    by (simp add: startup_def)
  have b: "add_result ex_store_down = Threw ''unavailable''"
    by (simp add: ex_store_down_def)
  obtain obj where o: "raw_body ex_order_request = Some obj"
    by (simp add: ex_order_request_def)
  have on: "status (resp_of (handle ex_env ex_store_down PostCreateOrder ex_order_request
      (startup (Returned ())))) = 500"
    using a b o by (simp add: create_order_db_threw resp_of_def)
  have off: "status (resp_of (handle ex_env ex_store_down PostCreateOrder ex_order_request
      ((startup (Returned ()))\<lparr>isDbAvailable := False\<rparr>))) = 200"
    using o by (simp add: create_order_mem resp_of_def)
  have "\<not> falls_back ex_env ex_store_down PostCreateOrder ex_order_request (startup (Returned ()))"
  proof
    assume "falls_back ex_env ex_store_down PostCreateOrder ex_order_request (startup (Returned ()))"
    then have "resp_of (handle ex_env ex_store_down PostCreateOrder ex_order_request
          (startup (Returned ()))) =
        resp_of (handle ex_env ex_store_down PostCreateOrder ex_order_request
          ((startup (Returned ()))\<lparr>isDbAvailable := False\<rparr>))"
      by (simp add: falls_back_def)
    with on off show False by simp
  qed
  moreover have "inMemoryOrders (state_of (handle ex_env ex_store_down PostCreateOrder
      ex_order_request (startup (Returned ())))) = []"
    using a b o by (simp add: create_order_db_threw state_of_def startup_def)
  ultimately show ?thesis
    using a b on off by blast
qed

section \<open>Order intake: a store error is a hard failure\<close>

text \<open>
  Claim C2. While the storage mode is available, an order whose store write throws is
  answered with status 500 and the failure message, and nothing is written to the
  in-memory orders collection: the whole process state is as before.
\<close>

theorem order_store_error_C2:
  assumes "isDbAvailable s" and "add_result w = Threw e"
  shows "resp_of (handle env w PostCreateOrder req s) =
           \<lparr>status = 500, payload = json_message ''Failed to save order.''\<rparr>
         \<and> state_of (handle env w PostCreateOrder req s) = s
         \<and> inMemoryOrders (state_of (handle env w PostCreateOrder req s)) = inMemoryOrders s"
  using assms by (simp add: create_order_store_error)

theorem order_store_error_C2_witness:
  "isDbAvailable (startup (Returned ()))
   \<and> add_result ex_store_down = Threw ''unavailable''
   \<and> status (resp_of (handle ex_env ex_store_down PostCreateOrder ex_order_request
         (startup (Returned ())))) = 500
   \<and> inMemoryOrders (state_of (handle ex_env ex_store_down PostCreateOrder ex_order_request
         (startup (Returned ())))) = []"
proof -
  have a: "isDbAvailable (startup (Returned ()))"
    by (simp add: startup_def)
  have b: "add_result ex_store_down = Threw ''unavailable''"
    by (simp add: ex_store_down_def)
  show ?thesis
    using order_store_error_C2 [OF a b, of ex_env ex_order_request] a b
    by (simp add: startup_def)
qed

section \<open>Product add: the record of a valid submission\<close>

text \<open>
  Claim C3. An authorised product submission with a truthy \<open>name\<close> and a \<open>price\<close> of
  type number is answered with status 201 and a record whose properties are those of the
  body together with \<open>id\<close> and \<open>createdAt\<close>. Every property of the body other than
  these two is in the record as submitted, and \<open>createdAt\<close> is the server's clock reading
  whatever the body said. The record's \<open>id\<close> is the generated identifier only when the
  body has no \<open>id\<close> of its own: the record is written as \<^verbatim>\<open>{ id, ...product }\<close>, so
  an \<open>id\<close> in the body replaces the generated one. In in-memory mode the record is put at
  the front of the products collection.
\<close>

theorem add_valid_C3:
  assumes "requireAdmin env req = None"
    and "\<not> falsy (body req ''name'')"
    and "js_typeof (body req ''price'') = ''number''"
  shows "\<exists>item.
      resp_of (handle env w PostAdminProducts req s) = \<lparr>status = 201, payload = Json item\<rparr>
    \<and> dom item = insert ''id'' (insert ''createdAt'' (dom (body req)))
    \<and> (\<forall>k. k \<noteq> ''id'' \<and> k \<noteq> ''createdAt'' \<longrightarrow> item k = body req k)
    \<and> item ''createdAt'' = Some (JDate (new_Date w))
    \<and> item ''id'' =
        (case body req ''id'' of None \<Rightarrow> Some (JStr (generated_id w s)) | Some v \<Rightarrow> Some v)
    \<and> (\<not> isDbAvailable s \<longrightarrow>
         inMemoryProducts (state_of (handle env w PostAdminProducts req s)) =
           item # inMemoryProducts s)"
proof -
  let ?item = "spread_id (generated_id w s) ((body req)(''createdAt'' \<mapsto> JDate (new_Date w)))"
  have route: "handle env w PostAdminProducts req s = add_product w req s"
    using assms(1) by (simp add: admin_route_def)
  have resp: "resp_of (add_product w req s) = \<lparr>status = 201, payload = Json ?item\<rparr>"
    using assms(2,3) by (rule add_product_valid)
  have mem: "\<not> isDbAvailable s \<longrightarrow>
      inMemoryProducts (state_of (add_product w req s)) = ?item # inMemoryProducts s"
    using assms(2,3) by (simp add: add_product_mem state_of_def generated_id_def)
  have "resp_of (add_product w req s) = \<lparr>status = 201, payload = Json ?item\<rparr>
    \<and> dom ?item = insert ''id'' (insert ''createdAt'' (dom (body req)))
    \<and> (\<forall>k. k \<noteq> ''id'' \<and> k \<noteq> ''createdAt'' \<longrightarrow> ?item k = body req k)
    \<and> ?item ''createdAt'' = Some (JDate (new_Date w))
    \<and> ?item ''id'' =
        (case body req ''id'' of None \<Rightarrow> Some (JStr (generated_id w s)) | Some v \<Rightarrow> Some v)
    \<and> (\<not> isDbAvailable s \<longrightarrow>
         inMemoryProducts (state_of (add_product w req s)) = ?item # inMemoryProducts s)"
    using resp mem by (simp add: added_fields)
  then show ?thesis
    unfolding route by (rule exI [of _ ?item])
qed

theorem add_valid_C3_witness:
  "requireAdmin ex_env (ex_product_request\<lparr>raw_body := Some ((body ex_product_request)(''id'' \<mapsto> JStr ''mine''))\<rparr>) = None
   \<and> \<not> falsy (body (ex_product_request\<lparr>raw_body := Some ((body ex_product_request)(''id'' \<mapsto> JStr ''mine''))\<rparr>) ''name'')
   \<and> js_typeof (body (ex_product_request\<lparr>raw_body := Some ((body ex_product_request)(''id'' \<mapsto> JStr ''mine''))\<rparr>) ''price'') = ''number''
   \<and> generated_id ex_store_down (startup (Threw ''no credentials'')) = ''1001_k3x9ab''
   \<and> status (resp_of (handle ex_env ex_store_down PostAdminProducts
        (ex_product_request\<lparr>raw_body := Some ((body ex_product_request)(''id'' \<mapsto> JStr ''mine''))\<rparr>)
        (startup (Threw ''no credentials'')))) = 201
   \<and> json_field (resp_of (handle ex_env ex_store_down PostAdminProducts
        (ex_product_request\<lparr>raw_body := Some ((body ex_product_request)(''id'' \<mapsto> JStr ''mine''))\<rparr>)
        (startup (Threw ''no credentials'')))) ''id'' = Some (JStr ''mine'')
   \<and> json_field (resp_of (handle ex_env ex_store_down PostAdminProducts
        (ex_product_request\<lparr>raw_body := Some ((body ex_product_request)(''id'' \<mapsto> JStr ''mine''))\<rparr>)
        (startup (Threw ''no credentials'')))) ''createdAt'' = Some (JDate 1000)"
proof -
  let ?req = "ex_product_request\<lparr>raw_body := Some ((body ex_product_request)(''id'' \<mapsto> JStr ''mine''))\<rparr>"
  have a: "requireAdmin ex_env ?req = None"
    by (simp add: requireAdmin_def or_empty_def ex_defs)
  have b: "\<not> falsy (body ?req ''name'')"
    and c: "js_typeof (body ?req ''price'') = ''number''"
    and d: "body ?req ''id'' = Some (JStr ''mine'')"
    by (simp_all add: ex_product_request_def)
  have g: "generated_id ex_store_down (startup (Threw ''no credentials'')) = ''1001_k3x9ab''"
    by (simp add: generated_id_def startup_def synth_id_ex)
  have t: "new_Date ex_store_down = 1000"
    by (simp add: ex_store_down_def)
  from add_valid_C3 [OF a b c, of ex_store_down "startup (Threw ''no credentials'')"]
  obtain product where r:
    "resp_of (handle ex_env ex_store_down PostAdminProducts ?req
        (startup (Threw ''no credentials''))) = \<lparr>status = 201, payload = Json product\<rparr>"
    "product ''createdAt'' = Some (JDate (new_Date ex_store_down))"
    "product ''id'' = (case body ?req ''id'' of
        None \<Rightarrow> Some (JStr (generated_id ex_store_down (startup (Threw ''no credentials''))))
      | Some v \<Rightarrow> Some v)"
    by blast
  have "json_field (resp_of (handle ex_env ex_store_down PostAdminProducts ?req
        (startup (Threw ''no credentials'')))) ''id'' = Some (JStr ''mine'')"
    unfolding r(1) using r(3) d by (simp add: json_field_def)
  moreover have "json_field (resp_of (handle ex_env ex_store_down PostAdminProducts ?req
        (startup (Threw ''no credentials'')))) ''createdAt'' = Some (JDate 1000)"
    unfolding r(1) using r(2) t by (simp add: json_field_def)
  moreover have "status (resp_of (handle ex_env ex_store_down PostAdminProducts ?req
        (startup (Threw ''no credentials'')))) = 201"
    unfolding r(1) by simp
  ultimately show ?thesis
    using a b c g by blast
qed

section \<open>Product add: a submission that fails validation writes nothing\<close>

text \<open>
  Claim C4. An authorised product submission whose \<open>name\<close> is missing or falsy, or
  whose \<open>price\<close> is not of type number, is answered with status 400; the store is not
  called and the process state, the in-memory products collection included, is as before,
  so the catalogue has as many entries as it had.
\<close>

theorem add_invalid_C4:
  assumes "requireAdmin env req = None"
    and "falsy (body req ''name'') \<or> js_typeof (body req ''price'') \<noteq> ''number''"
  shows "resp_of (handle env w PostAdminProducts req s) =
           \<lparr>status = 400, payload = json_message ''name and numeric price are required''\<rparr>
         \<and> state_of (handle env w PostAdminProducts req s) = s
         \<and> calls_of (handle env w PostAdminProducts req s) = []
         \<and> length (inMemoryProducts (state_of (handle env w PostAdminProducts req s))) =
             length (inMemoryProducts s)"
  using assms
  by (simp add: admin_route_def add_product_invalid resp_of_def state_of_def calls_of_def)

theorem add_invalid_C4_witness:
  "requireAdmin ex_env (ex_product_request\<lparr>raw_body := Some [''name'' \<mapsto> JStr ''Wheel Set'',
       ''price'' \<mapsto> JStr ''49.99'']\<rparr>) = None
   \<and> js_typeof ((body (ex_product_request\<lparr>raw_body := Some [''name'' \<mapsto> JStr ''Wheel Set'',
       ''price'' \<mapsto> JStr ''49.99'']\<rparr>)) ''price'') = ''string''
   \<and> status (resp_of (handle ex_env ex_store_up PostAdminProducts
        (ex_product_request\<lparr>raw_body := Some [''name'' \<mapsto> JStr ''Wheel Set'',
           ''price'' \<mapsto> JStr ''49.99'']\<rparr>) (startup (Returned ())))) = 400
   \<and> calls_of (handle ex_env ex_store_up PostAdminProducts
        (ex_product_request\<lparr>raw_body := Some [''name'' \<mapsto> JStr ''Wheel Set'',
           ''price'' \<mapsto> JStr ''49.99'']\<rparr>) (startup (Returned ()))) = []
   \<and> state_of (handle ex_env ex_store_up PostAdminProducts
        (ex_product_request\<lparr>raw_body := Some [''name'' \<mapsto> JStr ''Wheel Set'',
           ''price'' \<mapsto> JStr ''49.99'']\<rparr>) (startup (Returned ()))) = startup (Returned ())"
proof -
  let ?req = "ex_product_request\<lparr>raw_body := Some [''name'' \<mapsto> JStr ''Wheel Set'',
       ''price'' \<mapsto> JStr ''49.99'']\<rparr>"
  have a: "requireAdmin ex_env ?req = None"
    by (simp add: requireAdmin_def or_empty_def ex_defs)
  have b: "js_typeof (body ?req ''price'') = ''string''"
    by simp
  have c: "falsy (body ?req ''name'') \<or> js_typeof (body ?req ''price'') \<noteq> ''number''"
    by simp
  show ?thesis
    using add_invalid_C4 [OF a c, of ex_store_up "startup (Returned ())"] a b
    by simp
qed

section \<open>The admin guard fails closed\<close>

text \<open>
  Claim C5. The three admin endpoints (product add, delete-all and delete-one) sit behind
  the guard. With no secret configured (the variable unset or empty) each answers 503
  whatever the header; with a secret configured and a header that is not exactly the
  secret each answers 401; in both cases the state is untouched and the store is not
  called, and a route behind the guard gives this answer whatever handler it wraps, so the
  handler is not invoked. With the exact secret each endpoint is its handler.
\<close>

theorem admin_guard_C5:
  "(ADMIN_SECRET env = None \<or> ADMIN_SECRET env = Some [] \<longrightarrow>
      handle env w PostAdminProducts req s =
        (\<lparr>status = 503, payload = json_message ''Admin not configured''\<rparr>, s, [])
      \<and> handle env w DeleteAdminProducts req s =
        (\<lparr>status = 503, payload = json_message ''Admin not configured''\<rparr>, s, [])
      \<and> handle env w DeleteAdminProduct req s =
        (\<lparr>status = 503, payload = json_message ''Admin not configured''\<rparr>, s, [])
      \<and> admin_route env handler req s =
        (\<lparr>status = 503, payload = json_message ''Admin not configured''\<rparr>, s, []))
   \<and> (ADMIN_SECRET env = Some secret \<and> secret \<noteq> [] \<and>
        headers req ''x-admin-secret'' \<noteq> Some secret \<longrightarrow>
      handle env w PostAdminProducts req s =
        (\<lparr>status = 401, payload = json_message ''Unauthorized''\<rparr>, s, [])
      \<and> handle env w DeleteAdminProducts req s =
        (\<lparr>status = 401, payload = json_message ''Unauthorized''\<rparr>, s, [])
      \<and> handle env w DeleteAdminProduct req s =
        (\<lparr>status = 401, payload = json_message ''Unauthorized''\<rparr>, s, [])
      \<and> admin_route env handler req s =
        (\<lparr>status = 401, payload = json_message ''Unauthorized''\<rparr>, s, []))
   \<and> (ADMIN_SECRET env = Some secret \<and> secret \<noteq> [] \<and>
        headers req ''x-admin-secret'' = Some secret \<longrightarrow>
      handle env w PostAdminProducts req s = add_product w req s
      \<and> handle env w DeleteAdminProducts req s = delete_all w req s
      \<and> handle env w DeleteAdminProduct req s = delete_one w req s
      \<and> admin_route env handler req s = handler req s)"
proof -
  have closed: "ADMIN_SECRET env = None \<or> ADMIN_SECRET env = Some [] \<longrightarrow>
      admin_route env h req s =
        (\<lparr>status = 503, payload = json_message ''Admin not configured''\<rparr>, s, [])" for h
    by (auto simp: admin_route_def requireAdmin_def or_empty_def Let_def)
  have wrong: "ADMIN_SECRET env = Some secret \<and> secret \<noteq> [] \<and>
        headers req ''x-admin-secret'' \<noteq> Some secret \<longrightarrow>
      admin_route env h req s =
        (\<lparr>status = 401, payload = json_message ''Unauthorized''\<rparr>, s, [])" for h
    by (auto simp: admin_route_def requireAdmin_def or_empty_def Let_def split: option.splits)
  have right: "ADMIN_SECRET env = Some secret \<and> secret \<noteq> [] \<and>
        headers req ''x-admin-secret'' = Some secret \<longrightarrow>
      admin_route env h req s = h req s" for h
    by (auto simp: admin_route_def requireAdmin_def or_empty_def Let_def)
  show ?thesis
    using closed [of "add_product w"] closed [of "delete_all w"] closed [of "delete_one w"]
      closed [of handler]
      wrong [of "add_product w"] wrong [of "delete_all w"] wrong [of "delete_one w"]
      wrong [of handler]
      right [of "add_product w"] right [of "delete_all w"] right [of "delete_one w"]
      right [of handler]
    by simp
qed

theorem admin_guard_C5_witness:
  "ADMIN_SECRET \<lparr>ADMIN_SECRET = None\<rparr> = None
   \<and> status (resp_of (handle \<lparr>ADMIN_SECRET = None\<rparr> ex_store_down PostAdminProducts
         ex_product_request (startup (Threw ''no credentials'')))) = 503
   \<and> status (resp_of (handle \<lparr>ADMIN_SECRET = None\<rparr> ex_store_down DeleteAdminProducts
         ex_product_request (startup (Threw ''no credentials'')))) = 503
   \<and> status (resp_of (handle \<lparr>ADMIN_SECRET = None\<rparr> ex_store_down DeleteAdminProduct
         ex_product_request (startup (Threw ''no credentials'')))) = 503
   \<and> ADMIN_SECRET ex_env = Some ''s3cret''
   \<and> headers (ex_product_request\<lparr>headers := [''x-admin-secret'' \<mapsto> ''s3cre'']\<rparr>)
        ''x-admin-secret'' \<noteq> Some ''s3cret''
   \<and> status (resp_of (handle ex_env ex_store_down PostAdminProducts
         (ex_product_request\<lparr>headers := [''x-admin-secret'' \<mapsto> ''s3cre'']\<rparr>)
         (startup (Threw ''no credentials'')))) = 401
   \<and> status (resp_of (handle ex_env ex_store_down DeleteAdminProducts
         (ex_product_request\<lparr>headers := [''x-admin-secret'' \<mapsto> ''s3cre'']\<rparr>)
         (startup (Threw ''no credentials'')))) = 401
   \<and> status (resp_of (handle ex_env ex_store_down DeleteAdminProduct
         (ex_product_request\<lparr>headers := [''x-admin-secret'' \<mapsto> ''s3cre'']\<rparr>)
         (startup (Threw ''no credentials'')))) = 401
   \<and> headers ex_product_request ''x-admin-secret'' = Some ''s3cret''
   \<and> status (resp_of (handle ex_env ex_store_down PostAdminProducts
         ex_product_request (startup (Threw ''no credentials'')))) = 201
   \<and> status (resp_of (handle ex_env ex_store_down DeleteAdminProducts
         ex_product_request (startup (Threw ''no credentials'')))) = 200
   \<and> status (resp_of (handle ex_env ex_store_down DeleteAdminProduct
         ex_product_request (startup (Threw ''no credentials'')))) = 200"
proof -
  let ?s = "startup (Threw ''no credentials'')"
  let ?bad = "ex_product_request\<lparr>headers := [''x-admin-secret'' \<mapsto> ''s3cre'']\<rparr>"
  have m: "\<not> isDbAvailable ?s"
    by (simp add: startup_def)
  have v: "\<not> falsy (body ex_product_request ''name'')"
    "js_typeof (body ex_product_request ''price'') = ''number''"
    by (simp_all add: ex_product_request_def)
  have e: "ADMIN_SECRET ex_env = Some ''s3cret''"
    "headers ?bad ''x-admin-secret'' \<noteq> Some ''s3cret''"
    "headers ex_product_request ''x-admin-secret'' = Some ''s3cret''"
    by (simp_all add: ex_env_def ex_product_request_def ex_admin_headers_def)
  have h: "status (resp_of (add_product ex_store_down ex_product_request ?s)) = 201"
    "status (resp_of (delete_all ex_store_down ex_product_request ?s)) = 200"
    "status (resp_of (delete_one ex_store_down ex_product_request ?s)) = 200"
    using m v by (simp_all add: add_product_mem delete_all_mem delete_one_mem resp_of_def)
  have closed: "handle \<lparr>ADMIN_SECRET = None\<rparr> ex_store_down PostAdminProducts ex_product_request ?s =
        (\<lparr>status = 503, payload = json_message ''Admin not configured''\<rparr>, ?s, [])
      \<and> handle \<lparr>ADMIN_SECRET = None\<rparr> ex_store_down DeleteAdminProducts ex_product_request ?s =
        (\<lparr>status = 503, payload = json_message ''Admin not configured''\<rparr>, ?s, [])
      \<and> handle \<lparr>ADMIN_SECRET = None\<rparr> ex_store_down DeleteAdminProduct ex_product_request ?s =
        (\<lparr>status = 503, payload = json_message ''Admin not configured''\<rparr>, ?s, [])"
    using admin_guard_C5 [where env = "\<lparr>ADMIN_SECRET = None\<rparr>" and w = ex_store_down
        and req = ex_product_request and s = ?s and secret = "''s3cret''"
        and handler = "add_product ex_store_down"]
    by simp
  have wrong: "handle ex_env ex_store_down PostAdminProducts ?bad ?s =
        (\<lparr>status = 401, payload = json_message ''Unauthorized''\<rparr>, ?s, [])
      \<and> handle ex_env ex_store_down DeleteAdminProducts ?bad ?s =
        (\<lparr>status = 401, payload = json_message ''Unauthorized''\<rparr>, ?s, [])
      \<and> handle ex_env ex_store_down DeleteAdminProduct ?bad ?s =
        (\<lparr>status = 401, payload = json_message ''Unauthorized''\<rparr>, ?s, [])"
    using admin_guard_C5 [where env = ex_env and w = ex_store_down
        and req = ?bad and s = ?s and secret = "''s3cret''"
        and handler = "add_product ex_store_down"] e
    by simp
  have right: "handle ex_env ex_store_down PostAdminProducts ex_product_request ?s =
        add_product ex_store_down ex_product_request ?s
      \<and> handle ex_env ex_store_down DeleteAdminProducts ex_product_request ?s =
        delete_all ex_store_down ex_product_request ?s
      \<and> handle ex_env ex_store_down DeleteAdminProduct ex_product_request ?s =
        delete_one ex_store_down ex_product_request ?s"
    using admin_guard_C5 [where env = ex_env and w = ex_store_down
        and req = ex_product_request and s = ?s and secret = "''s3cret''"
        and handler = "add_product ex_store_down"] e
    by simp
  show ?thesis
    using closed wrong right e h by (simp add: resp_of_def)
qed

section \<open>Product list: always status 200\<close>

text \<open>
  Claim C6. The product list answers 200 in every case and changes nothing. With the store
  available and the query answered, the handler has asked for the products ordered by
  \<open>createdAt\<close> descending and returns what the store answered, in the store's order, each
  document with its identifier (the column of \<open>createdAt\<close> values is the store's). When
  the query throws, or the store is unavailable, it returns the in-memory collection.
\<close>

theorem list_always_200_C6:
  "status (resp_of (handle env w GetProducts req s)) = 200
   \<and> state_of (handle env w GetProducts req s) = s
   \<and> (isDbAvailable s \<and> query_result w = Returned docs \<longrightarrow>
        calls_of (handle env w GetProducts req s) =
          [CollectionOrderByGet ''products'' ''createdAt'' ''desc'']
        \<and> payload (resp_of (handle env w GetProducts req s)) =
            JsonArray (map (\<lambda>d. spread_id (doc_id d) (doc_data d)) docs)
        \<and> map (\<lambda>item. item ''createdAt'') (map (\<lambda>d. spread_id (doc_id d) (doc_data d)) docs) =
            map (\<lambda>d. doc_data d ''createdAt'') docs)
   \<and> (isDbAvailable s \<and> query_result w = Threw e \<longrightarrow>
        payload (resp_of (handle env w GetProducts req s)) = JsonArray (inMemoryProducts s))
   \<and> (\<not> isDbAvailable s \<longrightarrow>
        payload (resp_of (handle env w GetProducts req s)) = JsonArray (inMemoryProducts s)
        \<and> calls_of (handle env w GetProducts req s) = [])"
proof -
  have st: "status (resp_of (list_products w req s)) = 200 \<and> state_of (list_products w req s) = s"
    by (simp add: list_products_def list_products_try_def resp_of_def state_of_def
        split: outcome.splits)
  have db: "isDbAvailable s \<and> query_result w = Returned docs \<longrightarrow>
        calls_of (list_products w req s) =
          [CollectionOrderByGet ''products'' ''createdAt'' ''desc'']
        \<and> payload (resp_of (list_products w req s)) =
            JsonArray (map (\<lambda>d. spread_id (doc_id d) (doc_data d)) docs)"
    by (simp add: list_products_db_returned resp_of_def calls_of_def)
  have col: "map (\<lambda>item. item ''createdAt'') (map (\<lambda>d. spread_id (doc_id d) (doc_data d)) docs) =
            map (\<lambda>d. doc_data d ''createdAt'') docs"
    by (simp add: spread_id_other)
  have thr: "isDbAvailable s \<and> query_result w = Threw e \<longrightarrow>
        payload (resp_of (list_products w req s)) = JsonArray (inMemoryProducts s)"
    by (simp add: list_products_db_threw resp_of_def)
  have mem: "\<not> isDbAvailable s \<longrightarrow>
        payload (resp_of (list_products w req s)) = JsonArray (inMemoryProducts s)
        \<and> calls_of (list_products w req s) = []"
    by (simp add: list_products_mem resp_of_def calls_of_def)
  show ?thesis
    using st db col thr mem by simp
qed

theorem list_always_200_C6_witness:
  "isDbAvailable (startup (Returned ()))
   \<and> query_result ex_store_up = Returned ex_docs
   \<and> status (resp_of (handle ex_env ex_store_up GetProducts ex_order_request
        (startup (Returned ())))) = 200
   \<and> payload (resp_of (handle ex_env ex_store_up GetProducts ex_order_request
        (startup (Returned ())))) =
        JsonArray (map (\<lambda>d. spread_id (doc_id d) (doc_data d)) ex_docs)
   \<and> query_result ex_store_down = Threw ''unavailable''
   \<and> status (resp_of (handle ex_env ex_store_down GetProducts ex_order_request
        (startup (Returned ())))) = 200
   \<and> payload (resp_of (handle ex_env ex_store_down GetProducts ex_order_request
        (startup (Returned ())))) = JsonArray []
   \<and> \<not> isDbAvailable (startup (Threw ''no credentials''))
   \<and> status (resp_of (handle ex_env ex_store_down GetProducts ex_order_request
        (startup (Threw ''no credentials'')))) = 200
   \<and> payload (resp_of (handle ex_env ex_store_down GetProducts ex_order_request
        (startup (Threw ''no credentials'')))) = JsonArray []"
proof -
  have a: "isDbAvailable (startup (Returned ()))"
    and b: "\<not> isDbAvailable (startup (Threw ''no credentials''))"
    and c: "inMemoryProducts (startup (Returned ())) = []"
    and d: "inMemoryProducts (startup (Threw ''no credentials'')) = []"
    by (simp_all add: startup_def)
  have q: "query_result ex_store_up = Returned ex_docs"
    and r: "query_result ex_store_down = Threw ''unavailable''"
    by (simp_all add: ex_store_up_def ex_store_down_def)
  show ?thesis
    using
      list_always_200_C6 [where env = ex_env and w = ex_store_up and req = ex_order_request
        and s = "startup (Returned ())" and docs = ex_docs and e = "''unavailable''"]
      list_always_200_C6 [where env = ex_env and w = ex_store_down and req = ex_order_request
        and s = "startup (Returned ())" and docs = ex_docs and e = "''unavailable''"]
      list_always_200_C6 [where env = ex_env and w = ex_store_down and req = ex_order_request
        and s = "startup (Threw ''no credentials'')" and docs = ex_docs
        and e = "''unavailable''"]
      a b c d q r
    by simp
qed

section \<open>Order intake in in-memory mode\<close>




section \<open>Delete one in in-memory mode\<close>

text \<open>
  Claim C8. In in-memory mode an authorised delete-one answers 200 and does not call the
  store. When no entry of the products collection has the path's identifier, the state is
  as before. When an entry has it, writing the collection as \<open>pre @ entry # post\<close> with
  \<open>entry\<close> the first such entry, the collection becomes \<open>pre @ post\<close>: that entry is
  removed and nothing else changes. Every collection with a matching entry splits this way.
\<close>

theorem delete_one_in_memory_C8:
  assumes "requireAdmin env req = None" and "\<not> isDbAvailable s"
  shows "status (resp_of (handle env w DeleteAdminProduct req s)) = 200
   \<and> calls_of (handle env w DeleteAdminProduct req s) = []
   \<and> ((\<forall>p\<in>set (inMemoryProducts s). p ''id'' \<noteq> Some (JStr (params_id req))) \<longrightarrow>
        state_of (handle env w DeleteAdminProduct req s) = s)
   \<and> (inMemoryProducts s = pre @ entry # post
        \<and> entry ''id'' = Some (JStr (params_id req))
        \<and> (\<forall>p\<in>set pre. p ''id'' \<noteq> Some (JStr (params_id req))) \<longrightarrow>
        state_of (handle env w DeleteAdminProduct req s) = s\<lparr>inMemoryProducts := pre @ post\<rparr>)
   \<and> ((\<exists>p\<in>set (inMemoryProducts s). p ''id'' = Some (JStr (params_id req))) \<longrightarrow>
        (\<exists>pre1 entry1 post1. inMemoryProducts s = pre1 @ entry1 # post1
           \<and> entry1 ''id'' = Some (JStr (params_id req))
           \<and> inMemoryProducts (state_of (handle env w DeleteAdminProduct req s)) = pre1 @ post1))"
proof -
  let ?r = "handle env w DeleteAdminProduct req s"
  have route: "?r = delete_one w req s"
    using assms(1) by (simp add: admin_route_def)
  have ok: "status (resp_of ?r) = 200 \<and> calls_of ?r = []"
    unfolding route using assms(2) by (simp add: delete_one_mem resp_of_def calls_of_def)
  have absent: "(\<forall>p\<in>set (inMemoryProducts s). p ''id'' \<noteq> Some (JStr (params_id req))) \<longrightarrow>
        state_of ?r = s"
    unfolding route using assms(2) by (simp add: delete_one_mem_absent state_of_def)
  have present: "inMemoryProducts s = pre @ entry # post
        \<and> entry ''id'' = Some (JStr (params_id req))
        \<and> (\<forall>p\<in>set pre. p ''id'' \<noteq> Some (JStr (params_id req))) \<longrightarrow>
        state_of ?r = s\<lparr>inMemoryProducts := pre @ post\<rparr>"
    unfolding route using assms(2) by (simp add: delete_one_mem_present state_of_def)
  have some: "(\<exists>p\<in>set (inMemoryProducts s). p ''id'' = Some (JStr (params_id req))) \<longrightarrow>
        (\<exists>pre1 entry1 post1. inMemoryProducts s = pre1 @ entry1 # post1
           \<and> entry1 ''id'' = Some (JStr (params_id req))
           \<and> inMemoryProducts (state_of ?r) = pre1 @ post1)"
  proof
    assume "\<exists>p\<in>set (inMemoryProducts s). p ''id'' = Some (JStr (params_id req))"
    then obtain pre1 entry1 post1 where sp: "inMemoryProducts s = pre1 @ entry1 # post1"
      "entry1 ''id'' = Some (JStr (params_id req))"
      "\<forall>p\<in>set pre1. p ''id'' \<noteq> Some (JStr (params_id req))"
      using split_list_first_prop [of "inMemoryProducts s"
          "\<lambda>p. p ''id'' = Some (JStr (params_id req))"]
      by blast
    have "inMemoryProducts (state_of ?r) = pre1 @ post1"
      unfolding route using delete_one_mem_present [OF assms(2) sp] by (simp add: state_of_def)
    with sp(1,2) show "\<exists>pre1 entry1 post1. inMemoryProducts s = pre1 @ entry1 # post1
           \<and> entry1 ''id'' = Some (JStr (params_id req))
           \<and> inMemoryProducts (state_of ?r) = pre1 @ post1"
      by blast
  qed
  show ?thesis
    using ok absent present some by blast
qed

theorem delete_one_in_memory_C8_witness:
  "requireAdmin ex_env (ex_product_request\<lparr>params_id := ''1000_aaaaaa''\<rparr>) = None
   \<and> \<not> isDbAvailable ex_two_products
   \<and> status (resp_of (handle ex_env ex_store_down DeleteAdminProduct
        (ex_product_request\<lparr>params_id := ''1000_aaaaaa''\<rparr>) ex_two_products)) = 200
   \<and> state_of (handle ex_env ex_store_down DeleteAdminProduct
        (ex_product_request\<lparr>params_id := ''1000_aaaaaa''\<rparr>) ex_two_products) =
       ex_two_products\<lparr>inMemoryProducts :=
         [[''id'' \<mapsto> JStr ''1001_bbbbbb'', ''name'' \<mapsto> JStr ''Motor'']]\<rparr>
   \<and> requireAdmin ex_env (ex_product_request\<lparr>params_id := ''1002_cccccc''\<rparr>) = None
   \<and> status (resp_of (handle ex_env ex_store_down DeleteAdminProduct
        (ex_product_request\<lparr>params_id := ''1002_cccccc''\<rparr>) ex_two_products)) = 200
   \<and> state_of (handle ex_env ex_store_down DeleteAdminProduct
        (ex_product_request\<lparr>params_id := ''1002_cccccc''\<rparr>) ex_two_products) = ex_two_products"
proof -
  have a: "requireAdmin ex_env (ex_product_request\<lparr>params_id := i\<rparr>) = None" for i
    by (simp add: requireAdmin_def or_empty_def ex_defs)
  have b: "\<not> isDbAvailable ex_two_products"
    by (simp add: ex_two_products_def)
  have c: "inMemoryProducts ex_two_products =
      [[''id'' \<mapsto> JStr ''1001_bbbbbb'', ''name'' \<mapsto> JStr ''Motor'']]
        @ [''id'' \<mapsto> JStr ''1000_aaaaaa'', ''name'' \<mapsto> JStr ''Tyre''] # []"
    by (simp add: ex_two_products_def)
  show ?thesis
    using
      delete_one_in_memory_C8 [OF a b, where i1 = "''1000_aaaaaa''" and w = ex_store_down
        and pre = "[[''id'' \<mapsto> JStr ''1001_bbbbbb'', ''name'' \<mapsto> JStr ''Motor'']]"
        and entry = "[''id'' \<mapsto> JStr ''1000_aaaaaa'', ''name'' \<mapsto> JStr ''Tyre'']"
        and post = "[]"]
      delete_one_in_memory_C8 [OF a b, where i1 = "''1002_cccccc''" and w = ex_store_down
        and pre = "[]"
        and entry = "[''id'' \<mapsto> JStr ''1000_aaaaaa'', ''name'' \<mapsto> JStr ''Tyre'']"
        and post = "[]"]
      a b c
    by (simp add: ex_two_products_def)
qed

section \<open>Delete all, then list\<close>

text \<open>
  Claim C9. In in-memory mode, whatever the products collection holds, an authorised
  delete-all answers 200 and leaves the collection empty, and a list request after it
  answers 200 with the empty sequence.
\<close>

theorem delete_all_then_list_C9:
  assumes "requireAdmin env req = None" and "\<not> isDbAvailable s"
  shows "status (resp_of (handle env w DeleteAdminProducts req s)) = 200
   \<and> inMemoryProducts (state_of (handle env w DeleteAdminProducts req s)) = []
   \<and> calls_of (handle env w DeleteAdminProducts req s) = []
   \<and> resp_of (handle env w' GetProducts req'
         (state_of (handle env w DeleteAdminProducts req s))) =
       \<lparr>status = 200, payload = JsonArray []\<rparr>"
  using assms
  by (simp add: admin_route_def delete_all_mem list_products_mem resp_of_def state_of_def
      calls_of_def)

theorem delete_all_then_list_C9_witness:
  "requireAdmin ex_env ex_product_request = None
   \<and> \<not> isDbAvailable (state_of (handle ex_env ex_store_down PostAdminProducts
         ex_product_request (startup (Threw ''no credentials''))))
   \<and> length (inMemoryProducts (state_of (handle ex_env ex_store_down PostAdminProducts
         ex_product_request (startup (Threw ''no credentials''))))) = 1
   \<and> resp_of (handle ex_env ex_store_down GetProducts ex_order_request
        (state_of (handle ex_env ex_store_down DeleteAdminProducts ex_product_request
           (state_of (handle ex_env ex_store_down PostAdminProducts
              ex_product_request (startup (Threw ''no credentials''))))))) =
       \<lparr>status = 200, payload = JsonArray []\<rparr>"
proof -
  let ?s = "state_of (handle ex_env ex_store_down PostAdminProducts
         ex_product_request (startup (Threw ''no credentials'')))"
  have a: "requireAdmin ex_env ex_product_request = None"
    by (simp add: requireAdmin_def or_empty_def ex_defs)
  have v: "\<not> falsy (body ex_product_request ''name'')"
    "js_typeof (body ex_product_request ''price'') = ''number''"
    by (simp_all add: ex_product_request_def)
  have m: "\<not> isDbAvailable (startup (Threw ''no credentials''))"
    by (simp add: startup_def)
  have b: "\<not> isDbAvailable ?s" and c: "length (inMemoryProducts ?s) = 1"
    using a v m by (simp_all add: admin_route_def add_product_mem state_of_def startup_def)
  show ?thesis
    using delete_all_then_list_C9 [OF a b, of ex_store_down ex_store_down ex_order_request] a b c
    by simp
qed

section \<open>The in-memory catalogue keeps reverse insertion order\<close>

text \<open>
  Claim C10. In in-memory mode a successful add puts its record at the front of the
  products collection, and a list request right after it returns that record first.
  Delete-one and delete-all leave a subsequence of the collection, so what remains keeps
  its relative order. Along every run of requests the collection is a subsequence of the
  records the add endpoint returned, newest first, followed by what the collection held at
  the start; the list endpoint returns the collection as it stands. Started empty and
  run on a clock that does not go backwards, the collection is ordered by \<open>createdAt\<close>
  descending, as the store's own listing is.
\<close>

theorem reverse_insertion_order_C10:
  assumes "\<not> isDbAvailable s"
  shows "(requireAdmin env req = None \<and> \<not> falsy (body req ''name'')
          \<and> js_typeof (body req ''price'') = ''number'' \<longrightarrow>
          (\<exists>item.
              resp_of (handle env w PostAdminProducts req s) =
                \<lparr>status = 201, payload = Json item\<rparr>
            \<and> inMemoryProducts (state_of (handle env w PostAdminProducts req s)) =
                item # inMemoryProducts s
            \<and> payload (resp_of (handle env w' GetProducts req'
                  (state_of (handle env w PostAdminProducts req s)))) =
                JsonArray (item # inMemoryProducts s)))
    \<and> subseq (inMemoryProducts (state_of (handle env w DeleteAdminProduct req s)))
         (inMemoryProducts s)
    \<and> subseq (inMemoryProducts (state_of (handle env w DeleteAdminProducts req s)))
         (inMemoryProducts s)
    \<and> subseq (inMemoryProducts (run env evs s)) (insertion_log env evs s @ inMemoryProducts s)
    \<and> payload (resp_of (handle env w' GetProducts req' (run env evs s))) =
        JsonArray (inMemoryProducts (run env evs s))
    \<and> (inMemoryProducts s = [] \<and> sorted (map clock_of evs) \<longrightarrow>
         newest_first (inMemoryProducts (run env evs s)))"
proof -
  have add: "requireAdmin env req = None \<and> \<not> falsy (body req ''name'')
          \<and> js_typeof (body req ''price'') = ''number'' \<longrightarrow>
          (\<exists>item.
              resp_of (handle env w PostAdminProducts req s) =
                \<lparr>status = 201, payload = Json item\<rparr>
            \<and> inMemoryProducts (state_of (handle env w PostAdminProducts req s)) =
                item # inMemoryProducts s
            \<and> payload (resp_of (handle env w' GetProducts req'
                  (state_of (handle env w PostAdminProducts req s)))) =
                JsonArray (item # inMemoryProducts s))"
  proof
    assume h: "requireAdmin env req = None \<and> \<not> falsy (body req ''name'')
          \<and> js_typeof (body req ''price'') = ''number''"
    let ?item = "spread_id (synth_id w) ((body req)(''createdAt'' \<mapsto> JDate (new_Date w)))"
    have r: "handle env w PostAdminProducts req s =
        (\<lparr>status = 201, payload = Json ?item\<rparr>,
         s\<lparr>inMemoryProducts := ?item # inMemoryProducts s\<rparr>, [])"
      using h assms by (simp add: admin_route_def add_product_mem)
    have "resp_of (handle env w PostAdminProducts req s) =
                \<lparr>status = 201, payload = Json ?item\<rparr>
            \<and> inMemoryProducts (state_of (handle env w PostAdminProducts req s)) =
                ?item # inMemoryProducts s
            \<and> payload (resp_of (handle env w' GetProducts req'
                  (state_of (handle env w PostAdminProducts req s)))) =
                JsonArray (?item # inMemoryProducts s)"
      unfolding r using assms by (simp add: resp_of_def state_of_def list_products_mem)
    then show "\<exists>item.
              resp_of (handle env w PostAdminProducts req s) =
                \<lparr>status = 201, payload = Json item\<rparr>
            \<and> inMemoryProducts (state_of (handle env w PostAdminProducts req s)) =
                item # inMemoryProducts s
            \<and> payload (resp_of (handle env w' GetProducts req'
                  (state_of (handle env w PostAdminProducts req s)))) =
                JsonArray (item # inMemoryProducts s)"
      by (rule exI [of _ ?item])
  qed
  have d1: "subseq (inMemoryProducts (state_of (handle env w DeleteAdminProduct req s)))
         (inMemoryProducts s)"
    by (cases "requireAdmin env req")
      (simp_all add: admin_route_def state_of_def delete_one_step [unfolded state_of_def])
  have d2: "subseq (inMemoryProducts (state_of (handle env w DeleteAdminProducts req s)))
         (inMemoryProducts s)"
    by (cases "requireAdmin env req")
      (simp_all add: admin_route_def state_of_def delete_all_step [unfolded state_of_def])
  have log: "subseq (inMemoryProducts (run env evs s))
      (insertion_log env evs s @ inMemoryProducts s)"
    by (rule run_insertion_log)
  have "\<not> isDbAvailable (run env evs s)"
    using assms by (simp add: run_flag)
  then have lst: "payload (resp_of (handle env w' GetProducts req' (run env evs s))) =
        JsonArray (inMemoryProducts (run env evs s))"
    by (simp add: list_products_mem resp_of_def)
  have srt: "inMemoryProducts s = [] \<and> sorted (map clock_of evs) \<longrightarrow>
         newest_first (inMemoryProducts (run env evs s))"
  proof
    assume h: "inMemoryProducts s = [] \<and> sorted (map clock_of evs)"
    have "newest_first (inMemoryProducts s)"
      using h by (simp add: newest_first_def)
    moreover have "\<forall>p\<in>set (inMemoryProducts s). \<forall>u. created_ms p = Some u \<longrightarrow>
           (\<forall>ev\<in>set evs. u \<le> clock_of ev)"
      using h by simp
    ultimately show "newest_first (inMemoryProducts (run env evs s))"
      using h by (intro run_newest_first) simp_all
  qed
  show ?thesis
    using add d1 d2 log lst srt by blast
qed

theorem reverse_insertion_order_C10_witness:
  "\<not> isDbAvailable (startup (Threw ''no credentials''))
   \<and> map (\<lambda>p. p ''name'')
        (inMemoryProducts (run ex_env
           [(ex_store_down, PostAdminProducts, ex_product_request),
            (ex_store_down_later, PostAdminProducts, ex_motor_request)]
           (startup (Threw ''no credentials'')))) =
       [Some (JStr ''Motor''), Some (JStr ''Wheel Set'')]
   \<and> map (\<lambda>p. p ''createdAt'')
        (inMemoryProducts (run ex_env
           [(ex_store_down, PostAdminProducts, ex_product_request),
            (ex_store_down_later, PostAdminProducts, ex_motor_request)]
           (startup (Threw ''no credentials'')))) =
       [Some (JDate 2000), Some (JDate 1000)]
   \<and> subseq
        (inMemoryProducts (run ex_env
           [(ex_store_down, PostAdminProducts, ex_product_request),
            (ex_store_down_later, PostAdminProducts, ex_motor_request)]
           (startup (Threw ''no credentials''))))
        (insertion_log ex_env
           [(ex_store_down, PostAdminProducts, ex_product_request),
            (ex_store_down_later, PostAdminProducts, ex_motor_request)]
           (startup (Threw ''no credentials'')) @ [])
   \<and> payload (resp_of (handle ex_env ex_store_down GetProducts ex_order_request
        (run ex_env
           [(ex_store_down, PostAdminProducts, ex_product_request),
            (ex_store_down_later, PostAdminProducts, ex_motor_request)]
           (startup (Threw ''no credentials''))))) =
       JsonArray (inMemoryProducts (run ex_env
           [(ex_store_down, PostAdminProducts, ex_product_request),
            (ex_store_down_later, PostAdminProducts, ex_motor_request)]
           (startup (Threw ''no credentials''))))
   \<and> map clock_of
        [(ex_store_down, PostAdminProducts, ex_product_request),
         (ex_store_down_later, PostAdminProducts, ex_motor_request)] = [1000, 2000]
   \<and> newest_first (inMemoryProducts (run ex_env
           [(ex_store_down, PostAdminProducts, ex_product_request),
            (ex_store_down_later, PostAdminProducts, ex_motor_request)]
           (startup (Threw ''no credentials''))))"
proof -
  let ?evs = "[(ex_store_down, PostAdminProducts, ex_product_request),
            (ex_store_down_later, PostAdminProducts, ex_motor_request)]"
  have a: "\<not> isDbAvailable (startup (Threw ''no credentials''))"
    and e: "inMemoryProducts (startup (Threw ''no credentials'')) = []"
    by (simp_all add: startup_def)
  have n: "map (\<lambda>p. p ''name'')
        (inMemoryProducts (run ex_env ?evs (startup (Threw ''no credentials'')))) =
       [Some (JStr ''Motor''), Some (JStr ''Wheel Set'')]"
    unfolding ex_run_two_adds
    by (simp add: spread_id_other ex_motor_request_def ex_product_request_def)
  have c: "map (\<lambda>p. p ''createdAt'')
        (inMemoryProducts (run ex_env ?evs (startup (Threw ''no credentials'')))) =
       [Some (JDate 2000), Some (JDate 1000)]"
    unfolding ex_run_two_adds
    by (simp add: spread_id_other ex_store_down_def ex_store_down_later_def)
  have k: "map clock_of ?evs = [1000, 2000]"
    by (simp add: clock_of_def ex_store_down_def ex_store_down_later_def)
  from reverse_insertion_order_C10 [OF a, where env = ex_env and evs = ?evs
      and w' = ex_store_down and req' = ex_order_request
      and w = ex_store_down and req = ex_product_request]
  have "subseq (inMemoryProducts (run ex_env ?evs (startup (Threw ''no credentials''))))
          (insertion_log ex_env ?evs (startup (Threw ''no credentials''))
             @ inMemoryProducts (startup (Threw ''no credentials'')))
     \<and> payload (resp_of (handle ex_env ex_store_down GetProducts ex_order_request
          (run ex_env ?evs (startup (Threw ''no credentials''))))) =
        JsonArray (inMemoryProducts (run ex_env ?evs (startup (Threw ''no credentials''))))
     \<and> (inMemoryProducts (startup (Threw ''no credentials'')) = []
          \<and> sorted (map clock_of ?evs) \<longrightarrow>
        newest_first (inMemoryProducts (run ex_env ?evs (startup (Threw ''no credentials'')))))"
    by blast
  then show ?thesis
    unfolding e using a n c k by simp
qed

end
